theory Spec2Isabelle
  imports Complex_Main
begin

section \<open>Vitals intelligence engine (backend/vitals\_engine.py)\<close>

text \<open>
  The threshold check and the risk flags only compare readings with constants: there a
  Python float is a real number and a comparison is the order of the reals. The outlier
  detector and the smoother compute with floats: there a float is an element of a type
  parameter and the primitives of double arithmetic are the fields of a record (see
  below), so that nothing is assumed about how they round.
  Dictionaries with a fixed set of keys (the TypedDicts of the module) are records;
  \<open>Literal\<close> types are datatypes. Where two TypedDicts share a key the record fields carry
  a prefix (\<open>th_\<close> for ThresholdResult, \<open>ol_\<close> for OutlierResult, \<open>tr_\<close> for
  TrendResult, \<open>rf_\<close> for RiskFlag).

  The \<open>message\<close> texts are f-strings that print floats; the text of a printed float is not
  modelled. A message is recorded as the template that the source instantiates together
  with the values it is instantiated at.
\<close>

datatype py_error =
    ZeroDivisionError
  | OverflowError
  | ValueError string
  | KeyError string
  | TypeError string

record band =
  unit :: string
  critical_low :: real
  warning_low :: real
  normal_low :: real
  normal_high :: real
  warning_high :: real
  critical_high :: real

definition THRESHOLDS :: "string \<rightharpoonup> band" where
  "THRESHOLDS =
    [''heart_rate'' \<mapsto>
       \<lparr>unit = ''bpm'', critical_low = 40, warning_low = 50, normal_low = 60,
        normal_high = 100, warning_high = 120, critical_high = 150\<rparr>,
     ''systolic_bp'' \<mapsto>
       \<lparr>unit = ''mmHg'', critical_low = 70, warning_low = 90, normal_low = 90,
        normal_high = 129, warning_high = 139, critical_high = 180\<rparr>,
     ''diastolic_bp'' \<mapsto>
       \<lparr>unit = ''mmHg'', critical_low = 40, warning_low = 60, normal_low = 60,
        normal_high = 89, warning_high = 89, critical_high = 120\<rparr>,
     ''spo2'' \<mapsto>
       \<lparr>unit = ''%'', critical_low = 88, warning_low = 92, normal_low = 95,
        normal_high = 100, warning_high = 100, critical_high = 100\<rparr>,
     ''temperature_f'' \<mapsto>
       \<lparr>unit = [CHR 0xC2, CHR 0xB0, CHR ''F''], critical_low = 95.0, warning_low = 96.8,
        normal_low = 97.0, normal_high = 99.0, warning_high = 100.4,
        critical_high = 103.0\<rparr>,
     ''respiratory_rate'' \<mapsto>
       \<lparr>unit = ''breaths/min'', critical_low = 8, warning_low = 10, normal_low = 12,
        normal_high = 20, warning_high = 24, critical_high = 30\<rparr>]"

datatype SeverityLevel = normal | warning | critical

datatype Direction = rising | falling | stable | insufficient_data

text \<open>
  The message templates. Each constructor stands for one f-string of the source and
  carries the values interpolated into it, in the order of the source:
  \<^item> \<open>Within_normal_range metric\<close>: "\{Metric\} is within normal range."
  \<^item> \<open>Critical_low metric value unit\<close>: "CRITICAL LOW \{metric\}: \{value\} \{unit\} ..."
  \<^item> \<open>Low metric value unit\<close>: "Low \{metric\}: \{value\} \{unit\} - Below normal range."
  \<^item> \<open>Critical_high metric value unit\<close>: "CRITICAL HIGH \{metric\}: \{value\} \{unit\} ..."
  \<^item> \<open>Elevated metric value unit\<close>: "Elevated \{metric\}: \{value\} \{unit\} - Above normal range."
  \<^item> \<open>Need_readings n\<close>: "Need at least 3 readings to determine trend (have \{n\})."
  \<^item> \<open>Is_stable metric change_pct n\<close>: "\{Metric\} is stable (change: ...\% over \{n\} readings)."
  \<^item> \<open>Trending_up metric change_pct n slope\<close>: "\{Metric\} is trending UP (...)."
  \<^item> \<open>Trending_down metric change_pct n slope\<close>: "\{Metric\} is trending DOWN (...)."
  \<^item> \<open>Combo_detail sys_bp hr\<close>: "Systolic BP \{sys\_bp\} mmHg with HR \{hr\} bpm simultaneously."
  \<^item> \<open>Text s\<close>: any other string (a caller of \<open>generate_risk_flags\<close> may pass any message).
  The messages of the outlier detector are the datatype \<open>outlier_message\<close> below.
\<close>

datatype message =
    Within_normal_range string
  | Critical_low string real string
  | Low string real string
  | Critical_high string real string
  | Elevated string real string
  | Need_readings nat
  | Is_stable string real nat
  | Trending_up string real nat real
  | Trending_down string real nat real
  | Combo_detail real real
  | Text string

record ThresholdResult =
  th_metric :: string
  th_value :: real
  th_unit :: string
  th_severity :: SeverityLevel
  th_message :: message
  auto_emergency :: bool

subsection \<open>1. Threshold breach detection\<close>

definition check_threshold :: "string \<Rightarrow> real \<Rightarrow> ThresholdResult option" where
  "check_threshold metric v =
    (case THRESHOLDS metric of
       None \<Rightarrow> None
     | Some t \<Rightarrow>
         Some
          (if v \<le> critical_low t then
             \<lparr>th_metric = metric, th_value = v, th_unit = unit t, th_severity = critical,
              th_message = Critical_low metric v (unit t), auto_emergency = True\<rparr>
           else if v \<le> warning_low t then
             \<lparr>th_metric = metric, th_value = v, th_unit = unit t, th_severity = warning,
              th_message = Low metric v (unit t), auto_emergency = False\<rparr>
           else if v \<ge> critical_high t then
             \<lparr>th_metric = metric, th_value = v, th_unit = unit t, th_severity = critical,
              th_message = Critical_high metric v (unit t), auto_emergency = True\<rparr>
           else if v \<ge> warning_high t then
             \<lparr>th_metric = metric, th_value = v, th_unit = unit t, th_severity = warning,
              th_message = Elevated metric v (unit t), auto_emergency = False\<rparr>
           else
             \<lparr>th_metric = metric, th_value = v, th_unit = unit t, th_severity = normal,
              th_message = Within_normal_range metric, auto_emergency = False\<rparr>))"

subsection \<open>2. Outlier detection and smoothing\<close>

text \<open>
  Floating point. These functions compute with Python floats (IEEE doubles), and what
  they return depends on how every operation rounds. A float is therefore a value of the
  type parameter \<open>'f\<close>, and the primitives the source uses are the fields of the record
  \<open>float_ops\<close>, which every definition takes as its first argument:
  \<^item> \<open>f_lit x\<close>: the float of the literal or the int \<open>x\<close> (\<open>0.0\<close>, \<open>1\<close>, \<open>100\<close>, \<open>1e-6\<close>);
  \<^item> \<open>f_of_nat n\<close>: the float of the length \<open>n\<close> in \<open>x / len(values)\<close>;
  \<^item> \<open>f_sum xs\<close>: \<open>sum(xs)\<close> of a list of floats;
  \<^item> \<open>f_sub\<close>, \<open>f_mul\<close>: \<open>x - y\<close> and \<open>x * y\<close>;
  \<^item> \<open>f_div x y\<close>: \<open>x / y\<close> for a divisor that is not zero (for a zero divisor Python
    raises, which \<open>py_truediv\<close> writes out);
  \<^item> \<open>f_square x\<close>: \<open>x ** 2\<close> where it has a value, and \<open>f_square_overflows x\<close> tells
    whether \<open>x ** 2\<close> raises OverflowError instead;
  \<^item> \<open>f_sqrt\<close>: \<open>math.sqrt\<close>, which the source applies to a mean of squares only (never
    negative, so its domain error cannot arise);
  \<^item> \<open>f_abs\<close>: \<open>abs\<close>;
  \<^item> \<open>f_less x y\<close>, \<open>f_le x y\<close>: the comparisons \<open>x < y\<close> and \<open>x <= y\<close>;
  \<^item> \<open>f_is_zero x\<close>: \<open>x == 0\<close>;
  \<^item> \<open>f_round x n\<close>: \<open>round(x, n)\<close>.
  A theorem about these definitions holds for every choice of the primitives, the doubles
  of any Python version with their infinities and NaN among them.
\<close>

record 'f float_ops =
  f_lit :: "real \<Rightarrow> 'f"
  f_of_nat :: "nat \<Rightarrow> 'f"
  f_sum :: "'f list \<Rightarrow> 'f"
  f_sub :: "'f \<Rightarrow> 'f \<Rightarrow> 'f"
  f_mul :: "'f \<Rightarrow> 'f \<Rightarrow> 'f"
  f_div :: "'f \<Rightarrow> 'f \<Rightarrow> 'f"
  f_square :: "'f \<Rightarrow> 'f"
  f_square_overflows :: "'f \<Rightarrow> bool"
  f_sqrt :: "'f \<Rightarrow> 'f"
  f_abs :: "'f \<Rightarrow> 'f"
  f_less :: "'f \<Rightarrow> 'f \<Rightarrow> bool"
  f_le :: "'f \<Rightarrow> 'f \<Rightarrow> bool"
  f_is_zero :: "'f \<Rightarrow> bool"
  f_round :: "'f \<Rightarrow> nat \<Rightarrow> 'f"

text \<open>\<open>x / y\<close> on floats raises ZeroDivisionError when \<open>y == 0\<close>.\<close>

definition py_truediv :: "'f float_ops \<Rightarrow> 'f \<Rightarrow> 'f \<Rightarrow> py_error + 'f" where
  "py_truediv ops x y = (if f_is_zero ops y then Inl ZeroDivisionError else Inr (f_div ops x y))"

text \<open>
  \<open>_mean\<close> divides by \<open>len(values)\<close>; on an empty list Python raises
  ZeroDivisionError.
\<close>

definition py_mean :: "'f float_ops \<Rightarrow> 'f list \<Rightarrow> py_error + 'f" where
  "py_mean ops values =
    (if length values = 0 then Inl ZeroDivisionError
     else Inr (f_div ops (f_sum ops values) (f_of_nat ops (length values))))"

text \<open>
  The generator \<open>(v - mean) ** 2 for v in values\<close> of \<open>_std\<close>, consumed from the left:
  the first power that overflows raises.
\<close>

fun squared_deviations :: "'f float_ops \<Rightarrow> 'f \<Rightarrow> 'f list \<Rightarrow> py_error + 'f list" where
  "squared_deviations ops mean [] = Inr []"
| "squared_deviations ops mean (v # rest) =
    (if f_square_overflows ops (f_sub ops v mean) then Inl OverflowError
     else case squared_deviations ops mean rest of
            Inl e \<Rightarrow> Inl e
          | Inr squares \<Rightarrow> Inr (f_square ops (f_sub ops v mean) # squares))"

definition py_std :: "'f float_ops \<Rightarrow> 'f list \<Rightarrow> 'f \<Rightarrow> py_error + 'f" where
  "py_std ops values mean =
    (case squared_deviations ops mean values of
       Inl e \<Rightarrow> Inl e
     | Inr squares \<Rightarrow>
        if length values = 0 then Inl ZeroDivisionError
        else Inr (f_sqrt ops (f_div ops (f_sum ops squares) (f_of_nat ops (length values)))))"

text \<open>
  The messages of the outlier detector, with the values their f-strings print:
  \<^item> \<open>Insufficient_history\<close>: "Insufficient history for outlier detection (need >=5 readings)."
  \<^item> \<open>Constant_changed\<close>: "Readings have been constant - small changes detected."
  \<^item> \<open>Readings_stable\<close>: "Readings stable."
  \<^item> \<open>Outlier_detected z z_threshold deviation_pct mu\<close>: "Outlier detected: Z-score=..."
  \<^item> \<open>Within_variation z mu\<close>: "Within normal variation (Z=..., mean=...)."
\<close>

datatype 'f outlier_message =
    Insufficient_history
  | Constant_changed
  | Readings_stable
  | Outlier_detected 'f 'f 'f 'f
  | Within_variation 'f 'f

record 'f OutlierResult =
  is_outlier :: bool
  z_score :: 'f
  deviation_pct :: 'f
  ol_message :: "'f outlier_message"

text \<open>
  \<open>detect_outlier\<close>. Where the mean is zero the source takes the int \<open>0\<close> for the
  deviation, and \<open>round(0, 2)\<close> of an int is \<open>0\<close>.
\<close>

definition detect_outlier ::
  "'f float_ops \<Rightarrow> 'f \<Rightarrow> 'f list \<Rightarrow> 'f \<Rightarrow> py_error + 'f OutlierResult" where
  "detect_outlier ops new_value history z_threshold =
    (if length history < 5 then
       Inr \<lparr>is_outlier = False, z_score = f_lit ops 0, deviation_pct = f_lit ops 0,
            ol_message = Insufficient_history\<rparr>
     else
       case py_mean ops history of
         Inl e \<Rightarrow> Inl e
       | Inr mu \<Rightarrow>
          (case py_std ops history mu of
             Inl e \<Rightarrow> Inl e
           | Inr sigma \<Rightarrow>
              if f_less ops sigma (f_lit ops (1 / 10 ^ 6)) then
                (let z = f_abs ops (f_sub ops new_value mu);
                     big = f_less ops (f_lit ops 1) z
                 in Inr \<lparr>is_outlier = big, z_score = z, deviation_pct = f_lit ops 0,
                         ol_message = (if big then Constant_changed else Readings_stable)\<rparr>)
              else
                (case py_truediv ops (f_sub ops new_value mu) sigma of
                   Inl e \<Rightarrow> Inl e
                 | Inr z \<Rightarrow>
                    (let outl = f_le ops z_threshold (f_abs ops z)
                     in if f_is_zero ops mu then
                          Inr \<lparr>is_outlier = outl, z_score = f_round ops z 3,
                               deviation_pct = f_lit ops 0,
                               ol_message =
                                 (if outl then Outlier_detected z z_threshold (f_lit ops 0) mu
                                  else Within_variation z mu)\<rparr>
                        else
                          (let dev = f_mul ops (f_div ops (f_sub ops new_value mu) mu)
                                       (f_lit ops 100)
                           in Inr \<lparr>is_outlier = outl, z_score = f_round ops z 3,
                                   deviation_pct = f_round ops dev 2,
                                   ol_message =
                                     (if outl then Outlier_detected z z_threshold dev mu
                                      else Within_variation z mu)\<rparr>)))))"

text \<open>
  The slice \<open>readings[start:i + 1]\<close> for \<open>0 \<le> start\<close>; it is empty when
  \<open>start \<ge> i + 1\<close>.
\<close>

definition slice :: "'a list \<Rightarrow> int \<Rightarrow> nat \<Rightarrow> 'a list" where
  "slice xs start stop = drop (nat start) (take stop xs)"

fun smooth_loop :: "'f float_ops \<Rightarrow> 'f list \<Rightarrow> int \<Rightarrow> nat list \<Rightarrow> py_error + 'f list" where
  "smooth_loop ops readings window [] = Inr []"
| "smooth_loop ops readings window (i # rest) =
    (let start = max 0 (int i - window + 1)
     in case py_mean ops (slice readings start (i + 1)) of
          Inl e \<Rightarrow> Inl e
        | Inr m \<Rightarrow>
           (case smooth_loop ops readings window rest of
              Inl e \<Rightarrow> Inl e
            | Inr smoothed \<Rightarrow> Inr (f_round ops m 2 # smoothed)))"

definition smooth_readings :: "'f float_ops \<Rightarrow> 'f list \<Rightarrow> int \<Rightarrow> py_error + 'f list" where
  "smooth_readings ops readings window =
    (if int (length readings) < window then Inr readings
     else smooth_loop ops readings window [0..<length readings])"

text \<open>
  The arithmetic of the real numbers as an instance of the primitives: no rounding and
  no overflow, with Python's \<open>round\<close> (to the nearest multiple of \<open>10 ^ (- ndigits)\<close>,
  a tie going to the even neighbour). On inputs whose intermediate results are integers
  of small size, double arithmetic is exact and computes what this instance computes.
\<close>

definition round_half_even :: "real \<Rightarrow> int" where
  "round_half_even x =
    (let f = \<lfloor>x\<rfloor>; d = x - of_int f
     in if d < 1 / 2 then f else if d > 1 / 2 then f + 1 else if even f then f else f + 1)"

definition round_decimal :: "real \<Rightarrow> nat \<Rightarrow> real" where
  "round_decimal x ndigits = of_int (round_half_even (x * 10 ^ ndigits)) / 10 ^ ndigits"

definition exact_arithmetic :: "real float_ops" where
  "exact_arithmetic =
    \<lparr>f_lit = (\<lambda>x. x), f_of_nat = real, f_sum = sum_list,
     f_sub = (\<lambda>x y. x - y), f_mul = (\<lambda>x y. x * y), f_div = (\<lambda>x y. x / y),
     f_square = (\<lambda>x. x ^ 2), f_square_overflows = (\<lambda>x. False), f_sqrt = sqrt,
     f_abs = abs, f_less = (\<lambda>x y. x < y), f_le = (\<lambda>x y. x \<le> y),
     f_is_zero = (\<lambda>x. x = 0), f_round = round_decimal\<rparr>"

subsection \<open>3. Trend results\<close>

text \<open>
  The TypedDict of a trend result, which \<open>generate_risk_flags\<close> reads. (Its producer,
  \<open>analyze_trend\<close>, decides by the sign and size of double-precision results and is not
  part of this development.)
\<close>

record TrendResult =
  tr_metric :: string
  direction :: Direction
  slope_per_reading :: real
  change_pct_over_window :: real
  tr_message :: message

subsection \<open>4. Risk flag generation\<close>

text \<open>
  \<open>str.replace('_', ' ')\<close> and \<open>str.title()\<close> on ASCII text: \<open>title\<close> puts the first
  letter after a non-letter in upper case and every other letter in lower case.
\<close>

definition replace_underscores :: "string \<Rightarrow> string" where
  "replace_underscores s = map (\<lambda>c. if c = CHR ''_'' then CHR '' '' else c) s"

definition lower_letters :: string where
  "lower_letters = ''abcdefghijklmnopqrstuvwxyz''"

definition upper_letters :: string where
  "upper_letters = ''ABCDEFGHIJKLMNOPQRSTUVWXYZ''"

definition to_upper :: "char \<Rightarrow> char" where
  "to_upper c = (case map_of (zip lower_letters upper_letters) c of Some u \<Rightarrow> u | None \<Rightarrow> c)"

definition to_lower :: "char \<Rightarrow> char" where
  "to_lower c = (case map_of (zip upper_letters lower_letters) c of Some l \<Rightarrow> l | None \<Rightarrow> c)"

definition is_letter :: "char \<Rightarrow> bool" where
  "is_letter c = (c \<in> set lower_letters \<or> c \<in> set upper_letters)"

fun title_from :: "bool \<Rightarrow> string \<Rightarrow> string" where
  "title_from prev_letter [] = []"
| "title_from prev_letter (c # cs) =
    (if is_letter c then (if prev_letter then to_lower c else to_upper c) # title_from True cs
     else c # title_from False cs)"

definition title_str :: "string \<Rightarrow> string" where
  "title_str s = title_from False s"

fun severity_str :: "SeverityLevel \<Rightarrow> string" where
  "severity_str normal = ''normal''"
| "severity_str warning = ''warning''"
| "severity_str critical = ''critical''"

record RiskFlag =
  flag_id :: string
  rf_severity :: SeverityLevel
  title :: string
  detail :: message
  recommendation :: string

text \<open>The body of the loop over \<open>threshold_results\<close>: the flags one result appends.\<close>

definition threshold_flags :: "ThresholdResult \<Rightarrow> RiskFlag list" where
  "threshold_flags tr =
    (if th_severity tr = warning \<or> th_severity tr = critical then
       [\<lparr>flag_id = ''threshold_'' @ th_metric tr @ ''_'' @ severity_str (th_severity tr),
         rf_severity = th_severity tr,
         title = ''Abnormal '' @ title_str (replace_underscores (th_metric tr)),
         detail = th_message tr,
         recommendation =
           (if th_severity tr = critical then ''Seek immediate emergency care.''
            else ''Monitor closely and consult a healthcare provider if persistent.'')\<rparr>]
     else [])"

text \<open>The body of the loop over \<open>trends\<close>: its two independent \<open>if\<close> statements.\<close>

definition trend_flags :: "TrendResult \<Rightarrow> RiskFlag list" where
  "trend_flags trend =
    (if direction trend = rising \<and> change_pct_over_window trend > 10 then
       (if tr_metric trend = ''systolic_bp'' \<or> tr_metric trend = ''diastolic_bp'' then
          [\<lparr>flag_id = ''trend_rising_'' @ tr_metric trend,
            rf_severity = warning,
            title = ''Progressive Rise in '' @ title_str (replace_underscores (tr_metric trend)),
            detail = tr_message trend,
            recommendation =
              ''Blood pressure shows a sustained upward trend. Log this trend and inform your doctor.''\<rparr>]
        else if tr_metric trend = ''heart_rate'' \<and> change_pct_over_window trend > 15 then
          [\<lparr>flag_id = ''trend_rising_heart_rate'',
            rf_severity = warning,
            title = ''Heart Rate Trend Increasing'',
            detail = tr_message trend,
            recommendation =
              ''Elevated and rising heart rate. Rest, hydrate, and monitor. Seek care if persistent.''\<rparr>]
        else [])
     else [])
    @
    (if direction trend = falling \<and> tr_metric trend = ''spo2'' then
       (if change_pct_over_window trend < - 3 then
          [\<lparr>flag_id = ''trend_falling_spo2'',
            rf_severity = critical,
            title = ''Falling Blood Oxygen Level'',
            detail = tr_message trend,
            recommendation =
              ''Decreasing SpO'' @ [CHR 0xE2, CHR 0x82, CHR 0x82]
              @ '' is a serious warning sign. Seek immediate medical attention.''\<rparr>]
        else [])
     else [])"

text \<open>\<open>dict.get(key, default)\<close> on the current-vitals dictionary.\<close>

definition get_or :: "(string \<rightharpoonup> real) \<Rightarrow> string \<Rightarrow> real \<Rightarrow> real" where
  "get_or d k dflt = (case d k of None \<Rightarrow> dflt | Some v \<Rightarrow> v)"

definition combo_flags :: "(string \<rightharpoonup> real) \<Rightarrow> RiskFlag list" where
  "combo_flags current_vitals =
    (let sys_bp = get_or current_vitals ''systolic_bp'' 0;
         hr = get_or current_vitals ''heart_rate'' 0
     in if sys_bp > 160 \<and> hr > 100 then
          [\<lparr>flag_id = ''combo_hypertensive_tachycardia'',
            rf_severity = critical,
            title = ''Combined: High BP + Elevated Heart Rate'',
            detail = Combo_detail sys_bp hr,
            recommendation =
              ''This combination warrants urgent medical evaluation. Do not exert yourself.''\<rparr>]
        else [])"

text \<open>The deduplication loop: \<open>seen\<close> is the set of flag ids already kept.\<close>

fun unique_flags :: "string set \<Rightarrow> RiskFlag list \<Rightarrow> RiskFlag list" where
  "unique_flags seen [] = []"
| "unique_flags seen (f # fs) =
    (if flag_id f \<notin> seen then f # unique_flags (insert (flag_id f) seen) fs
     else unique_flags seen fs)"

definition generate_risk_flags ::
  "(string \<rightharpoonup> real) \<Rightarrow> TrendResult list \<Rightarrow> ThresholdResult list \<Rightarrow> RiskFlag list" where
  "generate_risk_flags current_vitals trends threshold_results =
    unique_flags {}
      (concat (map threshold_flags threshold_results)
       @ concat (map trend_flags trends)
       @ combo_flags current_vitals)"

section \<open>Emergency orchestration engine (backend/emergency\_engine.py)\<close>

text \<open>
  The two JSON files of the module are the state: \<open>active_emergencies.json\<close>, a
  dictionary from patient id to the patient's event, and \<open>emergency_audit.json\<close>, the list
  of audit entries. Every function loads what it needs, works on it and saves it; the
  model passes the store in and returns the saved store. A failing file operation is not
  modelled, and a store that does not exist yet is the empty dictionary and the empty list.

  What a call reads from outside is a parameter of the model: the string \<open>uuid4\<close> stands
  for \<open>str(uuid.uuid4())\<close>, and \<open>clock k\<close> is the result of the \<open>k\<close>-th call of
  \<open>_now_iso\<close> within the operation (a time in microseconds). The Twilio account and the
  outcome of its two requests are the record \<open>gateway\<close>.
\<close>

type_synonym timestamp = nat

datatype EmergencyStatus =
  PENDING_CONFIRMATION | ESCALATED | RESOLVED | CANCELLED | CARETAKER_OVERRIDE

datatype TriggerSource =
  MANUAL_SOS | FALL_DETECTION | VITALS_CRITICAL | INACTIVITY | CARETAKER_ALERT

text \<open>
  The values of a decoded JSON document. \<open>location\<close> and \<open>vitals_snapshot\<close> are typed
  \<open>Optional[dict]\<close> and are stored as the request carries them, so a dictionary is the
  list of its items (the keys are distinct) with values of any JSON type. A JSON float
  is a real number here: the values \<open>NaN\<close> and \<open>Infinity\<close>, which Python's decoder also
  accepts, are not represented (they print without raising).
\<close>

datatype json =
    JNull
  | JBool bool
  | JInt int
  | JFloat real
  | JStr string
  | JArr "json list"
  | JObj "(string \<times> json) list"

type_synonym py_dict = "(string \<times> json) list"

text \<open>
  The packet of \<open>_build_voice_agent_packet\<close>. Its \<open>script\<close> is an f-string that prints
  floats; it is recorded as the values the source interpolates: the patient name, the
  vitals with the underscores of their names replaced (\<open>None\<close> for "not available"), the
  values printed for \<open>lat\<close> and \<open>lon\<close> (\<open>None\<close> for "location not available"), the
  background (\<open>None\<close> when the context is empty) and the event reference.
\<close>

record VoiceScript =
  on_behalf_of :: string
  current_vitals_said :: "py_dict option"
  gps_said :: "(real \<times> real) option"
  background_said :: "string option"
  emergency_reference :: string

record VoicePacket =
  script :: VoiceScript
  packet_event_id :: string

text \<open>
  The action dictionaries of an escalation. The four have different keys, so each is a
  constructor: \<open>CARETAKER_NOTIFIED channel success timestamp\<close>,
  \<open>DIAL_108 number success timestamp\<close>, \<open>GPS_SHARED location success timestamp\<close> and
  \<open>VOICE_AGENT_DISPATCHED packet timestamp\<close>. \<open>action\<close> reads the key "action" and
  \<open>success\<close> is \<open>dict.get("success")\<close>.
\<close>

datatype ActionRecord =
    CARETAKER_NOTIFIED "string list" bool timestamp
  | DIAL_108 string bool timestamp
  | GPS_SHARED "py_dict option" bool timestamp
  | VOICE_AGENT_DISPATCHED VoicePacket timestamp

fun action :: "ActionRecord \<Rightarrow> string" where
  "action (CARETAKER_NOTIFIED channel ok t) = ''CARETAKER_NOTIFIED''"
| "action (DIAL_108 number ok t) = ''DIAL_108''"
| "action (GPS_SHARED loc ok t) = ''GPS_SHARED''"
| "action (VOICE_AGENT_DISPATCHED packet t) = ''VOICE_AGENT_DISPATCHED''"

fun success :: "ActionRecord \<Rightarrow> bool option" where
  "success (CARETAKER_NOTIFIED channel ok t) = Some ok"
| "success (DIAL_108 number ok t) = Some ok"
| "success (GPS_SHARED loc ok t) = Some ok"
| "success (VOICE_AGENT_DISPATCHED packet t) = None"

text \<open>
  The event dictionary. The keys \<open>escalated_at\<close>, \<open>override_by\<close> and \<open>override_at\<close> are
  absent (\<open>None\<close>) until the operation that sets them.
\<close>

record EmergencyEvent =
  event_id :: string
  idempotency_key :: string
  patient_id :: string
  patient_name :: string
  trigger_source :: TriggerSource
  status :: EmergencyStatus
  triggered_at :: timestamp
  confirmation_deadline :: timestamp
  vitals_snapshot :: py_dict
  location :: "py_dict option"
  caretaker_phone :: "string option"
  medical_context :: "string option"
  actions_taken :: "ActionRecord list"
  resolved_at :: "timestamp option"
  resolved_by :: "string option"
  escalated_at :: "timestamp option"
  override_by :: "string option"
  override_at :: "timestamp option"

text \<open>
  An audit entry: \<open>event_type\<close>, \<open>event_id\<close> and \<open>patient_id\<close> are in every entry, the
  other keys only in the entries of the operation that writes them (\<open>None\<close> when absent,
  which is what \<open>dict.get\<close> returns).
\<close>

record AuditEntry =
  event_type :: string
  ae_event_id :: string
  ae_patient_id :: string
  ae_trigger_source :: "TriggerSource option"
  ae_idempotency_key :: "string option"
  ae_actions :: "string list option"
  ae_cancelled_by :: "string option"
  ae_resolved_by :: "string option"
  ae_caretaker_id :: "string option"
  logged_at :: "timestamp option"

record store =
  active :: "string \<rightharpoonup> EmergencyEvent"
  audit_log :: "AuditEntry list"

record gateway =
  TWILIO_SID :: "string option"
  TWILIO_TOKEN :: "string option"
  TWILIO_FROM :: "string option"
  sms_accepted :: bool
  call_accepted :: bool

text \<open>
  \<open>sms_accepted\<close> says whether \<open>client.messages.create\<close> returns (rather than raises),
  \<open>call_accepted\<close> the same for \<open>client.calls.create\<close>.
\<close>

text \<open>The truth value of an optional string: \<open>None\<close> and the empty string are false.\<close>

definition truthy :: "string option \<Rightarrow> bool" where
  "truthy x = (case x of None \<Rightarrow> False | Some v \<Rightarrow> v \<noteq> [])"

text \<open>The truth value of an optional dictionary: \<open>None\<close> and \<open>{}\<close> are false.\<close>

definition dict_truthy :: "py_dict option \<Rightarrow> bool" where
  "dict_truthy d = (case d of None \<Rightarrow> False | Some items \<Rightarrow> items \<noteq> [])"

definition or_else :: "string option \<Rightarrow> string \<Rightarrow> string" where
  "or_else x dflt = (if truthy x then the x else dflt)"

definition add_seconds :: "timestamp \<Rightarrow> nat \<Rightarrow> timestamp" where
  "add_seconds t seconds = t + seconds * 1000000"

definition blank_entry :: "string \<Rightarrow> string \<Rightarrow> string \<Rightarrow> AuditEntry" where
  "blank_entry ty eid pid =
    \<lparr>event_type = ty, ae_event_id = eid, ae_patient_id = pid, ae_trigger_source = None,
     ae_idempotency_key = None, ae_actions = None, ae_cancelled_by = None,
     ae_resolved_by = None, ae_caretaker_id = None, logged_at = None\<rparr>"

subsection \<open>Audit log\<close>

definition append_audit :: "store \<Rightarrow> timestamp \<Rightarrow> AuditEntry \<Rightarrow> store" where
  "append_audit s now entry =
    (let stamped = (case logged_at entry of None \<Rightarrow> entry\<lparr>logged_at := Some now\<rparr>
                                          | Some t \<Rightarrow> entry);
         logs = audit_log s @ [stamped]
     in s\<lparr>audit_log := drop (length logs - 2000) logs\<rparr>)"

subsection \<open>Active emergency state\<close>

definition get_active_emergency :: "store \<Rightarrow> string \<Rightarrow> EmergencyEvent option" where
  "get_active_emergency s pid = active s pid"

definition has_active_emergency :: "store \<Rightarrow> string \<Rightarrow> bool" where
  "has_active_emergency s pid =
    (case get_active_emergency s pid of
       None \<Rightarrow> False
     | Some em \<Rightarrow> status em \<notin> {RESOLVED, CANCELLED, CARETAKER_OVERRIDE})"

subsection \<open>Emergency lifecycle\<close>

text \<open>
  The result of \<open>trigger_emergency\<close>: the matching audit entry with the key
  \<open>_duplicate\<close> added, the patient's stored event with the key \<open>_already_active\<close> added,
  or the new event.
\<close>

datatype TriggerResult =
    Duplicate AuditEntry
  | Already_active EmergencyEvent
  | Triggered EmergencyEvent

text \<open>The idempotency scan: the last entry of the log that carries the key.\<close>

definition find_logged_key :: "AuditEntry list \<Rightarrow> string \<Rightarrow> AuditEntry option" where
  "find_logged_key logs k = find (\<lambda>log_entry. ae_idempotency_key log_entry = Some k) (rev logs)"

definition new_event ::
  "string \<Rightarrow> timestamp \<Rightarrow> string \<Rightarrow> TriggerSource \<Rightarrow> py_dict option \<Rightarrow>
   py_dict option \<Rightarrow> string option \<Rightarrow> string option \<Rightarrow> string option \<Rightarrow> string option \<Rightarrow>
   EmergencyEvent" where
  "new_event uuid4 now pid source vitals loc phone name context key =
    \<lparr>event_id = uuid4,
     idempotency_key = or_else key uuid4,
     patient_id = pid,
     patient_name = or_else name ''Unknown Patient'',
     trigger_source = source,
     status = PENDING_CONFIRMATION,
     triggered_at = now,
     confirmation_deadline = add_seconds now 30,
     vitals_snapshot = (case vitals of None \<Rightarrow> [] | Some v \<Rightarrow> v),
     location = loc,
     caretaker_phone = phone,
     medical_context = context,
     actions_taken = [],
     resolved_at = None,
     resolved_by = None,
     escalated_at = None,
     override_by = None,
     override_at = None\<rparr>"

definition create_emergency ::
  "store \<Rightarrow> string \<Rightarrow> (nat \<Rightarrow> timestamp) \<Rightarrow> string \<Rightarrow> TriggerSource \<Rightarrow>
   py_dict option \<Rightarrow> py_dict option \<Rightarrow> string option \<Rightarrow> string option \<Rightarrow>
   string option \<Rightarrow> string option \<Rightarrow> store \<times> TriggerResult" where
  "create_emergency s uuid4 clock pid source vitals loc phone name context key =
    (let event = new_event uuid4 (clock 0) pid source vitals loc phone name context key;
         s1 = s\<lparr>active := (active s)(pid \<mapsto> event)\<rparr>;
         s2 = append_audit s1 (clock 1)
                ((blank_entry ''EMERGENCY_TRIGGERED'' uuid4 pid)
                   \<lparr>ae_trigger_source := Some source,
                    ae_idempotency_key := Some (idempotency_key event)\<rparr>)
     in (s2, Triggered event))"

definition guard_active ::
  "store \<Rightarrow> string \<Rightarrow> (nat \<Rightarrow> timestamp) \<Rightarrow> string \<Rightarrow> TriggerSource \<Rightarrow>
   py_dict option \<Rightarrow> py_dict option \<Rightarrow> string option \<Rightarrow> string option \<Rightarrow>
   string option \<Rightarrow> string option \<Rightarrow> store \<times> TriggerResult" where
  "guard_active s uuid4 clock pid source vitals loc phone name context key =
    (if has_active_emergency s pid then
       (let existing = the (get_active_emergency s pid) in (s, Already_active existing))
     else create_emergency s uuid4 clock pid source vitals loc phone name context key)"

text \<open>
  \<open>trigger_emergency\<close>, in the order of the source: the idempotency check, the
  active-emergency guard (\<open>guard_active\<close>), then the creation of the event
  (\<open>create_emergency\<close>).
\<close>

definition trigger_emergency ::
  "store \<Rightarrow> string \<Rightarrow> (nat \<Rightarrow> timestamp) \<Rightarrow> string \<Rightarrow> TriggerSource \<Rightarrow>
   py_dict option \<Rightarrow> py_dict option \<Rightarrow> string option \<Rightarrow> string option \<Rightarrow>
   string option \<Rightarrow> string option \<Rightarrow> store \<times> TriggerResult" where
  "trigger_emergency s uuid4 clock pid source vitals loc phone name context key =
    (if truthy key then
       (case find_logged_key (audit_log s) (the key) of
          Some log_entry \<Rightarrow> (s, Duplicate log_entry)
        | None \<Rightarrow> guard_active s uuid4 clock pid source vitals loc phone name context key)
     else guard_active s uuid4 clock pid source vitals loc phone name context key)"

subsection \<open>Action implementations\<close>

definition get_twilio_client :: "gateway \<Rightarrow> bool" where
  "get_twilio_client g = (truthy (TWILIO_SID g) \<and> truthy (TWILIO_TOKEN g))"

text \<open>\<open>d[key]\<close> on a dictionary raises KeyError when the key is missing.\<close>

definition subscript :: "py_dict \<Rightarrow> string \<Rightarrow> py_error + json" where
  "subscript d key = (case map_of d key of None \<Rightarrow> Inl (KeyError key) | Some v \<Rightarrow> Inr v)"

text \<open>
  \<open>_notify_caretaker\<close>: after the check of the phone number the message is built, and
  for a location that is there the f-string reads \<open>location['lat']\<close> and then
  \<open>location['lon']\<close>, outside the \<open>try\<close> of the function; only then is the SMS sent
  or simulated.
\<close>

definition notify_caretaker :: "gateway \<Rightarrow> EmergencyEvent \<Rightarrow> py_error + bool" where
  "notify_caretaker g event =
    (let phone = caretaker_phone event;
         sent = (if get_twilio_client g \<and> truthy (TWILIO_FROM g) then sms_accepted g
                 else True)
     in if \<not> truthy phone \<or> phone = Some ''unknown'' then Inr False
        else if dict_truthy (location event) then
          (case subscript (the (location event)) ''lat'' of
             Inl e \<Rightarrow> Inl e
           | Inr lat \<Rightarrow>
              (case subscript (the (location event)) ''lon'' of
                 Inl e \<Rightarrow> Inl e
               | Inr lon \<Rightarrow> Inr sent))
        else Inr sent)"

definition dial_ambulance :: "gateway \<Rightarrow> EmergencyEvent \<Rightarrow> bool" where
  "dial_ambulance g event =
    (let target_number = caretaker_phone event
     in if \<not> truthy target_number \<or> target_number = Some ''unknown'' then False
        else if get_twilio_client g \<and> truthy (TWILIO_FROM g) then call_accepted g
        else True)"

definition share_gps :: "EmergencyEvent \<Rightarrow> bool" where
  "share_gps event = dict_truthy (location event)"

text \<open>
  The format specification \<open>:.4f\<close> applied to a JSON value: a float prints, an int
  prints when it converts to a double, a bool prints as 1 or 0, and every other value
  raises. The result is the value that is printed; the rounding to four decimals of the
  text is not modelled.
\<close>

definition format_fixed :: "json \<Rightarrow> py_error + real" where
  "format_fixed v =
    (case v of
       JFloat x \<Rightarrow> Inr x
     | JInt i \<Rightarrow>
        if \<bar>i\<bar> < 2 ^ 1024 - 2 ^ 970 then Inr (of_int i) else Inl OverflowError
     | JBool b \<Rightarrow> Inr (if b then 1 else 0)
     | JStr s \<Rightarrow>
        Inl (ValueError (''Unknown format code '' @ [CHR 0x27] @ ''f'' @ [CHR 0x27]
                          @ '' for object of type '' @ [CHR 0x27] @ ''str'' @ [CHR 0x27]))
     | JNull \<Rightarrow> Inl (TypeError ''unsupported format string passed to NoneType.__format__'')
     | JArr xs \<Rightarrow> Inl (TypeError ''unsupported format string passed to list.__format__'')
     | JObj kvs \<Rightarrow> Inl (TypeError ''unsupported format string passed to dict.__format__''))"

text \<open>
  \<open>loc_str\<close> of \<open>_build_voice_agent_packet\<close>: for a location that is there,
  \<open>location['lat']\<close> is read and formatted, then \<open>location['lon']\<close>.
\<close>

definition gps_coordinates :: "py_dict option \<Rightarrow> py_error + (real \<times> real) option" where
  "gps_coordinates loc =
    (if dict_truthy loc then
       (case subscript (the loc) ''lat'' of
          Inl e \<Rightarrow> Inl e
        | Inr lat \<Rightarrow>
           (case format_fixed lat of
              Inl e \<Rightarrow> Inl e
            | Inr x \<Rightarrow>
               (case subscript (the loc) ''lon'' of
                  Inl e \<Rightarrow> Inl e
                | Inr lon \<Rightarrow>
                   (case format_fixed lon of
                      Inl e \<Rightarrow> Inl e
                    | Inr y \<Rightarrow> Inr (Some (x, y))))))
     else Inr None)"

definition build_voice_agent_packet :: "EmergencyEvent \<Rightarrow> py_error + VoicePacket" where
  "build_voice_agent_packet event =
    (case gps_coordinates (location event) of
       Inl e \<Rightarrow> Inl e
     | Inr gps \<Rightarrow>
        Inr \<lparr>script =
               \<lparr>on_behalf_of = patient_name event,
                current_vitals_said =
                  (if vitals_snapshot event = [] then None
                   else Some (map (\<lambda>(k, v). (replace_underscores k, v))
                                (vitals_snapshot event))),
                gps_said = gps,
                background_said =
                  (if truthy (medical_context event) then medical_context event else None),
                emergency_reference = event_id event\<rparr>,
             packet_event_id = event_id event\<rparr>)"

subsection \<open>Escalation, cancellation, resolution, override\<close>

definition add_action :: "EmergencyEvent \<Rightarrow> ActionRecord \<Rightarrow> EmergencyEvent" where
  "add_action event a = event\<lparr>actions_taken := actions_taken event @ [a]\<rparr>"

text \<open>
  \<open>escalate_emergency\<close> changes the event in memory and saves it at the end only: an
  exception raised by one of the actions leaves the function before the store is
  written, so the model returns the error and the store stays as it was.
\<close>

definition escalate_emergency ::
  "store \<Rightarrow> gateway \<Rightarrow> (nat \<Rightarrow> timestamp) \<Rightarrow> string \<Rightarrow> py_dict option \<Rightarrow>
   py_error + store \<times> EmergencyEvent" where
  "escalate_emergency s g clock pid loc =
    (case active s pid of
       None \<Rightarrow> Inl (ValueError (''No active emergency for patient '' @ pid))
     | Some event \<Rightarrow>
        if status event \<noteq> PENDING_CONFIRMATION then Inr (s, event)
        else
          (let e0 = event\<lparr>status := ESCALATED, escalated_at := Some (clock 0)\<rparr>;
               e1 = (if dict_truthy loc then e0\<lparr>location := loc\<rparr> else e0)
           in case notify_caretaker g e1 of
                Inl e \<Rightarrow> Inl e
              | Inr caretaker_notified \<Rightarrow>
                 (let e2 = add_action e1
                             (CARETAKER_NOTIFIED [''sms'', ''push'', ''in_app'']
                                caretaker_notified (clock 1));
                      e3 = add_action e2 (DIAL_108 ''108'' (dial_ambulance g e2) (clock 2));
                      e4 = add_action e3 (GPS_SHARED (location e3) (share_gps e3) (clock 3))
                  in case build_voice_agent_packet e4 of
                       Inl e \<Rightarrow> Inl e
                     | Inr voice_packet \<Rightarrow>
                        (let e5 = add_action e4 (VOICE_AGENT_DISPATCHED voice_packet (clock 4));
                             s1 = s\<lparr>active := (active s)(pid \<mapsto> e5)\<rparr>;
                             s2 = append_audit s1 (clock 5)
                                    ((blank_entry ''EMERGENCY_ESCALATED'' (event_id e5) pid)
                                       \<lparr>ae_actions := Some (map action (actions_taken e5))\<rparr>)
                         in Inr (s2, e5)))))"

definition cancel_emergency ::
  "store \<Rightarrow> (nat \<Rightarrow> timestamp) \<Rightarrow> string \<Rightarrow> string \<Rightarrow> py_error + store \<times> EmergencyEvent" where
  "cancel_emergency s clock pid cancelled_by =
    (case active s pid of
       None \<Rightarrow> Inl (ValueError (''No active emergency for '' @ pid))
     | Some event \<Rightarrow>
        (let e1 = event\<lparr>status := CANCELLED, resolved_at := Some (clock 0),
                         resolved_by := Some cancelled_by\<rparr>;
             s1 = s\<lparr>active := (active s)(pid \<mapsto> e1)\<rparr>;
             s2 = append_audit s1 (clock 1)
                    ((blank_entry ''EMERGENCY_CANCELLED'' (event_id e1) pid)
                       \<lparr>ae_cancelled_by := Some cancelled_by\<rparr>)
         in Inr (s2, e1)))"

definition resolve_emergency ::
  "store \<Rightarrow> (nat \<Rightarrow> timestamp) \<Rightarrow> string \<Rightarrow> string \<Rightarrow> py_error + store \<times> EmergencyEvent" where
  "resolve_emergency s clock pid resolved_by_arg =
    (case active s pid of
       None \<Rightarrow> Inl (ValueError (''No active emergency for '' @ pid))
     | Some event \<Rightarrow>
        (let e1 = event\<lparr>status := RESOLVED, resolved_at := Some (clock 0),
                         resolved_by := Some resolved_by_arg\<rparr>;
             s1 = s\<lparr>active := (active s)(pid \<mapsto> e1)\<rparr>;
             s2 = append_audit s1 (clock 1)
                    ((blank_entry ''EMERGENCY_RESOLVED'' (event_id e1) pid)
                       \<lparr>ae_resolved_by := Some resolved_by_arg\<rparr>)
         in Inr (s2, e1)))"

definition caretaker_override ::
  "store \<Rightarrow> (nat \<Rightarrow> timestamp) \<Rightarrow> string \<Rightarrow> string \<Rightarrow> py_error + store \<times> EmergencyEvent" where
  "caretaker_override s clock pid caretaker_id =
    (case active s pid of
       None \<Rightarrow> Inl (ValueError (''No active emergency for '' @ pid))
     | Some event \<Rightarrow>
        (let e1 = event\<lparr>status := CARETAKER_OVERRIDE, override_by := Some caretaker_id,
                         override_at := Some (clock 0)\<rparr>;
             s1 = s\<lparr>active := (active s)(pid \<mapsto> e1)\<rparr>;
             s2 = append_audit s1 (clock 1)
                    ((blank_entry ''CARETAKER_OVERRIDE'' (event_id e1) pid)
                       \<lparr>ae_caretaker_id := Some caretaker_id\<rparr>)
         in Inr (s2, e1)))"

subsection \<open>Reachable stores\<close>

text \<open>
  The stores the engine can be in: the empty store, and every store an operation of the
  lifecycle saves, whatever its arguments, the identifier drawn and the clock.
\<close>

definition empty_store :: store where
  "empty_store = \<lparr>active = Map.empty, audit_log = []\<rparr>"





section \<open>Reference definitions from the specification\<close>

text \<open>
  The mean \<open>\<mu>\<close> and the population standard deviation \<open>\<sigma>\<close> of a history, as the
  specification of the outlier detector names them, computed with the float primitives.
\<close>

definition mean_of :: "'f float_ops \<Rightarrow> 'f list \<Rightarrow> 'f" where
  "mean_of ops history = f_div ops (f_sum ops history) (f_of_nat ops (length history))"

definition population_std :: "'f float_ops \<Rightarrow> 'f list \<Rightarrow> 'f" where
  "population_std ops history =
    f_sqrt ops
      (f_div ops
         (f_sum ops (map (\<lambda>v. f_square ops (f_sub ops v (mean_of ops history))) history))
         (f_of_nat ops (length history)))"

text \<open>
  The trailing moving average of window \<open>w\<close> at index \<open>i\<close>: the mean of the entries
  \<open>max(0, i - w + 1)\<close> through \<open>i\<close>, computed with the float primitives.
\<close>

definition trailing_average :: "'f float_ops \<Rightarrow> 'f list \<Rightarrow> int \<Rightarrow> nat \<Rightarrow> 'f" where
  "trailing_average ops readings w i =
    (let start = nat (max 0 (int i - w + 1))
     in f_div ops (f_sum ops (map (\<lambda>j. readings ! j) [start..<Suc i]))
          (f_of_nat ops (i - start + 1)))"

text \<open>
  A location as the signature of \<open>trigger_emergency\<close> documents it: a dictionary whose
  \<open>lat\<close> and \<open>lon\<close> are floats. The location an escalation works with is absent, empty
  or of this shape.
\<close>

definition usable_location :: "py_dict option \<Rightarrow> bool" where
  "usable_location loc =
    (loc = None \<or> loc = Some [] \<or>
     (\<exists>items x y. loc = Some items \<and> map_of items ''lat'' = Some (JFloat x)
        \<and> map_of items ''lon'' = Some (JFloat y)))"

section \<open>Scenario stores\<close>

text \<open>
  Two stores that the lifecycle produces from the empty store, used as concrete inputs: in
  \<open>pending_store\<close> an emergency has been triggered for \<open>patient-1\<close> with the
  idempotency key \<open>key-1\<close>; in \<open>resolved_store\<close> that emergency has then been resolved.
  The clock \<open>tick\<close> answers its \<open>k\<close>-th reading with \<open>k\<close>.
\<close>

definition tick :: "nat \<Rightarrow> timestamp" where
  "tick k = k"

definition pending_store :: store where
  "pending_store =
    fst (trigger_emergency empty_store ''event-1'' tick ''patient-1'' MANUAL_SOS
           None None None None None (Some ''key-1''))"

definition resolved_store :: store where
  "resolved_store =
    (case resolve_emergency pending_store tick ''patient-1'' ''PATIENT'' of
       Inr (s, ev) \<Rightarrow> s
     | Inl e \<Rightarrow> pending_store)"

text \<open>
  In \<open>located_store\<close> the emergency of \<open>patient-2\<close> carries a caretaker phone and a
  location with float coordinates; \<open>mislabelled\<close> is a location whose keys are not
  \<open>lat\<close> and \<open>lon\<close>.
\<close>

definition bangalore :: py_dict where
  "bangalore = [(''lat'', JFloat 12.97), (''lon'', JFloat 77.59), (''accuracy_m'', JInt 12)]"

definition mislabelled :: py_dict where
  "mislabelled = [(''latitude'', JFloat 12.97), (''longitude'', JFloat 77.59)]"

definition located_store :: store where
  "located_store =
    fst (trigger_emergency empty_store ''event-2'' tick ''patient-2'' FALL_DETECTION
           None (Some bangalore) (Some ''+911234567890'') (Some ''Asha'') None None)"

text \<open>
  A gateway without a Twilio account: no SMS and no call is attempted through it.
\<close>

definition quiet_gateway :: gateway where
  "quiet_gateway =
    \<lparr>TWILIO_SID = None, TWILIO_TOKEN = None, TWILIO_FROM = None,
     sms_accepted = False, call_accepted = False\<rparr>"

section \<open>Properties of the vitals engine\<close>

subsection \<open>Threshold bands\<close>

lemma THRESHOLDS_spo2:
  "THRESHOLDS ''spo2'' =
     Some \<lparr>unit = ''%'', critical_low = 88, warning_low = 92, normal_low = 95,
           normal_high = 100, warning_high = 100, critical_high = 100\<rparr>"
  by (simp add: THRESHOLDS_def)

lemma THRESHOLDS_heart_rate:
  "THRESHOLDS ''heart_rate'' =
     Some \<lparr>unit = ''bpm'', critical_low = 40, warning_low = 50, normal_low = 60,
           normal_high = 100, warning_high = 120, critical_high = 150\<rparr>"
  by (simp add: THRESHOLDS_def)

lemma check_threshold_known:
  assumes "THRESHOLDS metric = Some t"
  shows "\<exists>r. check_threshold metric v = Some r \<and>
          (th_severity r, auto_emergency r) =
            (if v \<le> critical_low t then (critical, True)
             else if v \<le> warning_low t then (warning, False)
             else if v \<ge> critical_high t then (critical, True)
             else if v \<ge> warning_high t then (warning, False)
             else (normal, False))"
  using assms by (simp add: check_threshold_def)

text \<open>
  Claim C4, as stated, fails at its second example: a saturation of 94 is above
  \<open>warning_low = 92\<close> and below every high cut point, so no rule fires and
  \<open>check_threshold("spo2", 94)\<close> is \<open>normal\<close>, not \<open>warning\<close>.
\<close>

theorem spo2_94_is_normal:
  "map_option th_severity (check_threshold ''spo2'' 94) = Some normal"
  by (simp add: check_threshold_def THRESHOLDS_spo2)

text \<open>
  Claim C4, amended: \<open>check_threshold("spo2", 85)\<close> is critical with
  \<open>auto_emergency\<close> set; \<open>check_threshold("spo2", 94)\<close> is normal without
  \<open>auto_emergency\<close>, the warning band of spo2 ending at 92, where the result is warning;
  and for every tracked metric the result follows the first matching rule in the order
  value \<open>\<le>\<close> critical\_low (critical, auto emergency), value \<open>\<le>\<close> warning\_low (warning),
  value \<open>\<ge>\<close> critical\_high (critical, auto emergency), value \<open>\<ge>\<close> warning\_high (warning),
  else normal.
\<close>

theorem check_threshold_first_match:
  "(\<exists>r. check_threshold ''spo2'' 85 = Some r \<and> th_severity r = critical \<and> auto_emergency r)
   \<and> (\<exists>r. check_threshold ''spo2'' 94 = Some r \<and> th_severity r = normal
          \<and> \<not> auto_emergency r)
   \<and> (\<exists>r. check_threshold ''spo2'' 92 = Some r \<and> th_severity r = warning)
   \<and> (\<forall>metric t v. THRESHOLDS metric = Some t \<longrightarrow>
         (\<exists>r. check_threshold metric v = Some r \<and>
            (th_severity r, auto_emergency r) =
              (if v \<le> critical_low t then (critical, True)
               else if v \<le> warning_low t then (warning, False)
               else if v \<ge> critical_high t then (critical, True)
               else if v \<ge> warning_high t then (warning, False)
               else (normal, False))))"
proof (intro conjI allI impI)
  show "\<exists>r. check_threshold ''spo2'' 85 = Some r \<and> th_severity r = critical \<and> auto_emergency r"
    by (simp add: check_threshold_def THRESHOLDS_spo2)
  show "\<exists>r. check_threshold ''spo2'' 94 = Some r \<and> th_severity r = normal
          \<and> \<not> auto_emergency r"
    by (simp add: check_threshold_def THRESHOLDS_spo2)
  show "\<exists>r. check_threshold ''spo2'' 92 = Some r \<and> th_severity r = warning"
    by (simp add: check_threshold_def THRESHOLDS_spo2)
next
  fix metric t v
  assume "THRESHOLDS metric = Some t"
  then show "\<exists>r. check_threshold metric v = Some r \<and>
            (th_severity r, auto_emergency r) =
              (if v \<le> critical_low t then (critical, True)
               else if v \<le> warning_low t then (warning, False)
               else if v \<ge> critical_high t then (critical, True)
               else if v \<ge> warning_high t then (warning, False)
               else (normal, False))"
    by (rule check_threshold_known)
qed

theorem check_threshold_first_match_witness:
  "THRESHOLDS ''heart_rate'' \<noteq> None
   \<and> (\<exists>r. check_threshold ''heart_rate'' 130 = Some r \<and> th_severity r = warning
          \<and> \<not> auto_emergency r)"
  using check_threshold_first_match THRESHOLDS_heart_rate by fastforce

text \<open>
  Claim C9: the spo2 band has \<open>critical_high = 100\<close>, and every spo2 reading of 100 or
  more, a saturation of exactly 100 among them, is classified critical with
  \<open>auto_emergency\<close> set, the flag on which the ingestion route triggers an emergency.
\<close>

theorem spo2_full_saturation_is_critical:
  "critical_high (the (THRESHOLDS ''spo2'')) = 100 \<and>
   (\<forall>v\<ge>100. \<exists>r. check_threshold ''spo2'' v = Some r \<and> th_severity r = critical
        \<and> auto_emergency r)"
  by (simp add: check_threshold_def THRESHOLDS_spo2)

theorem spo2_full_saturation_is_critical_witness:
  "(100::real) \<ge> 100 \<and>
   (\<exists>r. check_threshold ''spo2'' 100 = Some r \<and> th_severity r = critical \<and> auto_emergency r)"
  using spo2_full_saturation_is_critical by simp

subsection \<open>Risk flags\<close>

lemma unique_flags_subset: "set (unique_flags seen fs) \<subseteq> set fs"
  by (induction fs arbitrary: seen) auto

lemma unique_flags_keeps_id:
  "f \<in> set fs \<Longrightarrow> flag_id f \<notin> seen \<Longrightarrow>
   \<exists>g \<in> set (unique_flags seen fs). flag_id g = flag_id f"
proof (induction fs arbitrary: seen)
  case Nil
  then show ?case by simp
next
  case (Cons a fs)
  show ?case
  proof (cases "flag_id a = flag_id f")
    case True
    with Cons.prems show ?thesis by auto
  next
    case False
    with Cons.prems have "f \<in> set fs" by auto
    moreover from False Cons.prems have "flag_id f \<notin> insert (flag_id a) seen" by auto
    ultimately show ?thesis
      using Cons.IH [of seen] Cons.IH [of "insert (flag_id a) seen"] Cons.prems(2)
      by auto
  qed
qed

lemma threshold_flags_not_combo:
  "g \<in> set (threshold_flags tr) \<Longrightarrow> flag_id g \<noteq> ''combo_hypertensive_tachycardia''"
  by (auto simp: threshold_flags_def split: if_splits)

lemma trend_flags_not_combo:
  "g \<in> set (trend_flags t) \<Longrightarrow> flag_id g \<noteq> ''combo_hypertensive_tachycardia''"
  by (auto simp: trend_flags_def split: if_splits)

lemma combo_flags_fire:
  assumes "current ''systolic_bp'' = Some s" and "current ''heart_rate'' = Some h"
    and "s > 160" and "h > 100"
  shows "\<exists>f. combo_flags current = [f] \<and> flag_id f = ''combo_hypertensive_tachycardia''
            \<and> rf_severity f = critical"
  using assms by (simp add: combo_flags_def get_or_def)

lemma combo_flags_severity:
  "g \<in> set (combo_flags current) \<Longrightarrow> rf_severity g = critical"
  by (auto simp: combo_flags_def Let_def split: if_splits)

text \<open>
  Claim C6: whenever the current vitals hold a systolic pressure above 160 together with a
  heart rate above 100, the flags returned by \<open>generate_risk_flags\<close> contain one with
  the id \<open>combo_hypertensive_tachycardia\<close> and severity \<open>critical\<close>, whatever the trend
  and threshold results passed in: the ids of the other flags start with \<open>threshold_\<close> or
  \<open>trend_\<close>, so deduplication cannot drop or replace it.
\<close>

theorem combo_flag_always_raised:
  assumes "current ''systolic_bp'' = Some s" and "current ''heart_rate'' = Some h"
    and "s > 160" and "h > 100"
  shows "\<exists>f \<in> set (generate_risk_flags current trends threshold_results).
           flag_id f = ''combo_hypertensive_tachycardia'' \<and> rf_severity f = critical"
proof -
  let ?all = "concat (map threshold_flags threshold_results)
              @ concat (map trend_flags trends) @ combo_flags current"
  from combo_flags_fire [OF assms] obtain f where
    f: "combo_flags current = [f]" "flag_id f = ''combo_hypertensive_tachycardia''"
    by blast
  then have "f \<in> set ?all" by simp
  then obtain g where g: "g \<in> set (unique_flags {} ?all)" "flag_id g = flag_id f"
    using unique_flags_keeps_id [of f ?all "{}"] by auto
  from g(1) have "g \<in> set ?all" using unique_flags_subset by blast
  with g(2) f(2) have "g \<in> set (combo_flags current)"
    using threshold_flags_not_combo trend_flags_not_combo by auto
  then have "rf_severity g = critical" by (rule combo_flags_severity)
  with g f(2) show ?thesis
    unfolding generate_risk_flags_def by auto
qed

theorem combo_flag_always_raised_witness:
  "[''systolic_bp'' \<mapsto> 165, ''heart_rate'' \<mapsto> 105] ''systolic_bp'' = Some (165::real)
   \<and> [''systolic_bp'' \<mapsto> 165, ''heart_rate'' \<mapsto> 105] ''heart_rate'' = Some (105::real)
   \<and> (165::real) > 160 \<and> (105::real) > 100
   \<and> (\<exists>f \<in> set (generate_risk_flags [''systolic_bp'' \<mapsto> 165, ''heart_rate'' \<mapsto> 105] [] []).
           flag_id f = ''combo_hypertensive_tachycardia'' \<and> rf_severity f = critical)"
  using combo_flag_always_raised
    [of "[''systolic_bp'' \<mapsto> 165, ''heart_rate'' \<mapsto> 105]" 165 105 "[]" "[]"]
  by simp

subsection \<open>Outlier detection\<close>

lemma squared_deviations_no_overflow:
  assumes "\<forall>v \<in> set values. \<not> f_square_overflows ops (f_sub ops v mean)"
  shows "squared_deviations ops mean values =
           Inr (map (\<lambda>v. f_square ops (f_sub ops v mean)) values)"
  using assms by (induction "values") simp_all

lemma squared_deviations_overflow:
  assumes "\<exists>v \<in> set values. f_square_overflows ops (f_sub ops v mean)"
  shows "squared_deviations ops mean values = Inl OverflowError"
  using assms
proof (induction "values")
  case Nil
  then show ?case by simp
next
  case (Cons a rest)
  show ?case
  proof (cases "f_square_overflows ops (f_sub ops a mean)")
    case True
    then show ?thesis by simp
  next
    case False
    with Cons.prems have "\<exists>v \<in> set rest. f_square_overflows ops (f_sub ops v mean)"
      by auto
    then have "squared_deviations ops mean rest = Inl OverflowError"
      by (rule Cons.IH)
    with False show ?thesis by simp
  qed
qed

lemma py_mean_is_mean_of:
  "values \<noteq> [] \<Longrightarrow> py_mean ops values = Inr (mean_of ops values)"
  by (simp add: py_mean_def mean_of_def)

lemma py_std_is_population_std:
  assumes "values \<noteq> []"
    and "\<forall>v \<in> set values. \<not> f_square_overflows ops (f_sub ops v (mean_of ops values))"
  shows "py_std ops values (mean_of ops values) = Inr (population_std ops values)"
  using assms
  by (simp add: py_std_def population_std_def squared_deviations_no_overflow)

text \<open>
  Claim C7, as stated, fails on a constant history: for the history
  \<open>[60, 60, 60, 60, 60]\<close> and the new value 100 the mean is 60 and the deviation of every
  entry is 0, the source takes its branch for \<open>\<sigma> < 1e-6\<close> and returns
  \<open>deviation_pct = 0\<close>, where the claim gives \<open>(100 - 60) / 60 * 100\<close>. (Every
  intermediate result is a small integer, which doubles compute exactly.)
\<close>

theorem constant_history_counterexample:
  "detect_outlier exact_arithmetic 100 [60, 60, 60, 60, 60] (5 / 2) =
     Inr \<lparr>is_outlier = True, z_score = 40, deviation_pct = 0, ol_message = Constant_changed\<rparr>
   \<and> mean_of exact_arithmetic [60, 60, 60, 60, 60] = 60"
  by (simp add: detect_outlier_def py_mean_def py_std_def mean_of_def exact_arithmetic_def)

text \<open>
  Claim C7, amended: for every new value and every history of at least 5 points, with
  \<open>\<mu>\<close> the mean and \<open>\<sigma>\<close> the population standard deviation of the history as the
  float primitives compute them: when no squared deviation overflows, \<open>detect_outlier\<close>
  returns a result whose \<open>deviation_pct\<close> is \<open>0\<close> when \<open>\<sigma> < 1e-6\<close>, \<open>0\<close> when
  \<open>\<mu> == 0\<close>, and otherwise \<open>round((new_value - \<mu>) / \<mu> * 100, 2)\<close>; when a squared
  deviation overflows, the call raises OverflowError. (The one fact used of the
  primitives is that a float equal to zero compares below \<open>1e-6\<close>.)
\<close>

theorem detect_outlier_deviation:
  assumes "5 \<le> length history"
  shows
    "((\<forall>v \<in> set history.
         \<not> f_square_overflows ops (f_sub ops v (mean_of ops history)))
      \<and> (\<forall>x. f_is_zero ops x \<longrightarrow> f_less ops x (f_lit ops (1 / 10 ^ 6))) \<longrightarrow>
      (\<exists>r. detect_outlier ops new_value history z_threshold = Inr r \<and>
         deviation_pct r =
           (if f_less ops (population_std ops history) (f_lit ops (1 / 10 ^ 6)) then f_lit ops 0
            else if f_is_zero ops (mean_of ops history) then f_lit ops 0
            else f_round ops
                   (f_mul ops
                      (f_div ops (f_sub ops new_value (mean_of ops history))
                         (mean_of ops history))
                      (f_lit ops 100))
                   2)))
     \<and> ((\<exists>v \<in> set history.
           f_square_overflows ops (f_sub ops v (mean_of ops history))) \<longrightarrow>
         detect_outlier ops new_value history z_threshold = Inl OverflowError)"
proof (intro conjI impI)
  from assms have ne: "history \<noteq> []" by auto
  note m = py_mean_is_mean_of [OF ne, of ops]
  {
    assume h: "(\<forall>v \<in> set history.
         \<not> f_square_overflows ops (f_sub ops v (mean_of ops history)))
      \<and> (\<forall>x. f_is_zero ops x \<longrightarrow> f_less ops x (f_lit ops (1 / 10 ^ 6)))"
    then have s: "py_std ops history (mean_of ops history) = Inr (population_std ops history)"
      using py_std_is_population_std [OF ne] by blast
    from h have z: "\<not> f_less ops (population_std ops history) (f_lit ops (1 / 10 ^ 6))
        \<Longrightarrow> \<not> f_is_zero ops (population_std ops history)"
      by blast
    show "\<exists>r. detect_outlier ops new_value history z_threshold = Inr r \<and>
         deviation_pct r =
           (if f_less ops (population_std ops history) (f_lit ops (1 / 10 ^ 6)) then f_lit ops 0
            else if f_is_zero ops (mean_of ops history) then f_lit ops 0
            else f_round ops
                   (f_mul ops
                      (f_div ops (f_sub ops new_value (mean_of ops history))
                         (mean_of ops history))
                      (f_lit ops 100))
                   2)"
      using assms z by (simp add: detect_outlier_def m s py_truediv_def Let_def)
  }
  {
    assume "\<exists>v \<in> set history. f_square_overflows ops (f_sub ops v (mean_of ops history))"
    then have "squared_deviations ops (mean_of ops history) history = Inl OverflowError"
      by (rule squared_deviations_overflow)
    with assms show "detect_outlier ops new_value history z_threshold = Inl OverflowError"
      by (simp add: detect_outlier_def m py_std_def)
  }
qed

theorem detect_outlier_deviation_witness:
  "5 \<le> length [1, 1, 1, 1, 6 :: real]
   \<and> filter (\<lambda>v. f_square_overflows exact_arithmetic
                     (f_sub exact_arithmetic v (mean_of exact_arithmetic [1, 1, 1, 1, 6])))
         [1, 1, 1, 1, 6 :: real] = []
   \<and> (\<exists>r. detect_outlier exact_arithmetic 4 [1, 1, 1, 1, 6] (5 / 2) = Inr r
         \<and> deviation_pct r = 100)"
proof -
  have len: "5 \<le> length [1, 1, 1, 1, 6 :: real]" by simp
  have m: "mean_of exact_arithmetic [1, 1, 1, 1, 6] = 2"
    by (simp add: mean_of_def exact_arithmetic_def)
  have "population_std exact_arithmetic [1, 1, 1, 1, 6] = sqrt 4"
    by (simp add: population_std_def m) (simp add: exact_arithmetic_def)
  then have s: "population_std exact_arithmetic [1, 1, 1, 1, 6] = 2" by simp
  have r: "round_decimal 100 2 = 100"
    by (simp add: round_decimal_def round_half_even_def)
  have ops: "f_square_overflows exact_arithmetic = (\<lambda>x. False)"
      "f_is_zero exact_arithmetic = (\<lambda>x. x = 0)"
      "f_less exact_arithmetic = (\<lambda>x y. x < y)"
      "f_lit exact_arithmetic = (\<lambda>x. x)"
      "f_round exact_arithmetic = round_decimal"
      "f_mul exact_arithmetic = (\<lambda>x y. x * y)"
      "f_div exact_arithmetic = (\<lambda>x y. x / y)"
      "f_sub exact_arithmetic = (\<lambda>x y. x - y)"
    by (simp_all add: exact_arithmetic_def)
  show ?thesis
    using detect_outlier_deviation [OF len, of exact_arithmetic 4 "5 / 2"] m s r
    by (simp add: ops)
qed

subsection \<open>Smoothing\<close>

lemma slice_is_index_range:
  assumes "s \<le> i" and "i < length xs"
  shows "drop s (take (Suc i) xs) = map (\<lambda>j. xs ! j) [s..<Suc i]"
proof (rule nth_equalityI)
  show "length (drop s (take (Suc i) xs)) = length (map (\<lambda>j. xs ! j) [s..<Suc i])"
    using assms by (simp del: upt_Suc)
next
  fix k
  assume "k < length (drop s (take (Suc i) xs))"
  with assms have k: "s + k < Suc i" by simp
  with assms show "drop s (take (Suc i) xs) ! k = map (\<lambda>j. xs ! j) [s..<Suc i] ! k"
    by (simp del: upt_Suc)
qed

lemma py_mean_slice:
  assumes "1 \<le> w" and "i < length readings"
  shows "py_mean ops (slice readings (max 0 (int i - w + 1)) (i + 1)) =
           Inr (trailing_average ops readings w i)"
proof -
  define s where "s = nat (max 0 (int i - w + 1))"
  from assms have s: "s \<le> i" by (simp add: s_def)
  have sl: "slice readings (max 0 (int i - w + 1)) (i + 1) = map (\<lambda>j. readings ! j) [s..<Suc i]"
    using slice_is_index_range [OF s assms(2)] by (simp add: slice_def s_def)
  have len: "length (map (\<lambda>j. readings ! j) [s..<Suc i]) = i - s + 1"
    using s by simp
  show ?thesis
    unfolding sl py_mean_def trailing_average_def Let_def s_def [symmetric]
    using s by simp
qed

lemma smooth_loop_map:
  assumes "1 \<le> w" and "\<forall>i \<in> set idx. i < length readings"
  shows "smooth_loop ops readings w idx =
           Inr (map (\<lambda>i. f_round ops (trailing_average ops readings w i) 2) idx)"
  using assms(2)
proof (induction idx)
  case Nil
  then show ?case by simp
next
  case (Cons i idx)
  then have "i < length readings" by simp
  with assms(1) have "py_mean ops (slice readings (max 0 (int i - w + 1)) (i + 1)) =
      Inr (trailing_average ops readings w i)"
    by (rule py_mean_slice)
  with Cons show ?case by (simp add: Let_def)
qed

text \<open>
  Claim C8, as stated, fails when the window is longer than the list: for the readings
  \<open>[1, 3]\<close> and the window 3 the source returns the readings unchanged, so the entry at
  index 1 is 3, where the trailing average of the entries 0 through 1 is 2. (No float
  operation is performed on this path; \<open>(1 + 3) / 2\<close> is exact in doubles.)
\<close>

theorem short_window_counterexample:
  "smooth_readings exact_arithmetic [1, 3] 3 = Inr [1, 3]
   \<and> trailing_average exact_arithmetic [1, 3] 3 1 = 2"
  by (simp add: smooth_readings_def trailing_average_def exact_arithmetic_def)

text \<open>
  Claim C8, amended: for every list of readings and every window size \<open>w\<close> with
  \<open>1 \<le> w \<le> len(readings)\<close>, \<open>smooth_readings\<close> returns a list of the same length
  as the input whose \<open>i\<close>-th entry is \<open>round(m, 2)\<close> for \<open>m\<close> the trailing moving
  average of the entries \<open>max(0, i - w + 1)\<close> through \<open>i\<close> as the float primitives
  compute it (the first \<open>w - 1\<close> entries averaging over a shorter prefix); when the list
  is shorter than the window it returns the readings unchanged.
\<close>

theorem smooth_readings_trailing_average:
  "(1 \<le> w \<and> w \<le> int (length readings) \<longrightarrow>
      (\<exists>out. smooth_readings ops readings w = Inr out \<and> length out = length readings \<and>
         (\<forall>i < length readings.
            out ! i = f_round ops (trailing_average ops readings w i) 2)))
   \<and> (int (length readings) < w \<longrightarrow> smooth_readings ops readings w = Inr readings)"
proof (intro conjI impI)
  assume w: "1 \<le> w \<and> w \<le> int (length readings)"
  then have "smooth_loop ops readings w [0..<length readings] =
      Inr (map (\<lambda>i. f_round ops (trailing_average ops readings w i) 2) [0..<length readings])"
    by (intro smooth_loop_map) simp_all
  with w show "\<exists>out. smooth_readings ops readings w = Inr out \<and> length out = length readings \<and>
         (\<forall>i < length readings.
            out ! i = f_round ops (trailing_average ops readings w i) 2)"
    by (simp add: smooth_readings_def)
next
  assume "int (length readings) < w"
  then show "smooth_readings ops readings w = Inr readings"
    by (simp add: smooth_readings_def)
qed

theorem smooth_readings_trailing_average_witness:
  "(1::int) \<le> 3 \<and> 3 \<le> int (length [2, 4, 6, 8 :: real])
   \<and> (\<exists>out. smooth_readings exact_arithmetic [2, 4, 6, 8] 3 = Inr out \<and> length out = 4
          \<and> out ! 3 = 6)
   \<and> int (length [1, 3 :: real]) < 3
   \<and> smooth_readings exact_arithmetic [1, 3] 3 = Inr [1, 3]"
proof -
  have t: "trailing_average exact_arithmetic [2, 4, 6, 8] 3 3 = 6"
    by (simp add: trailing_average_def Let_def exact_arithmetic_def upt_rec numeral_eq_Suc)
  have r: "f_round exact_arithmetic 6 2 = 6"
    by (simp add: exact_arithmetic_def round_decimal_def round_half_even_def)
  from smooth_readings_trailing_average [of 3 "[2, 4, 6, 8]" exact_arithmetic]
  obtain out where out: "smooth_readings exact_arithmetic [2, 4, 6, 8] 3 = Inr out"
      "length out = length [2, 4, 6, 8 :: real]"
      "\<forall>i < length [2, 4, 6, 8 :: real].
         out ! i = f_round exact_arithmetic (trailing_average exact_arithmetic [2, 4, 6, 8] 3 i) 2"
    by auto
  from out(3) have "out ! 3 = f_round exact_arithmetic
      (trailing_average exact_arithmetic [2, 4, 6, 8] 3 3) 2"
    by simp
  then have "out ! 3 = 6"
    by (simp only: t r)
  with out(1,2) have first: "\<exists>out. smooth_readings exact_arithmetic [2, 4, 6, 8] 3 = Inr out
      \<and> length out = 4 \<and> out ! 3 = 6"
    by auto
  have second: "smooth_readings exact_arithmetic [1, 3] 3 = Inr [1, 3]"
    using smooth_readings_trailing_average [of 3 "[1, 3]" exact_arithmetic] by simp
  from first second show ?thesis by simp
qed

section \<open>Properties of the emergency engine\<close>

subsection \<open>The scenario stores\<close>

lemma pending_store_active:
  "active pending_store =
     [''patient-1'' \<mapsto>
        new_event ''event-1'' 0 ''patient-1'' MANUAL_SOS None None None None None (Some ''key-1'')]"
  by (simp add: pending_store_def trigger_emergency_def truthy_def find_logged_key_def
      empty_store_def guard_active_def has_active_emergency_def get_active_emergency_def
      create_emergency_def Let_def append_audit_def tick_def)

lemma pending_store_audit:
  "audit_log pending_store =
     [(blank_entry ''EMERGENCY_TRIGGERED'' ''event-1'' ''patient-1'')
        \<lparr>ae_trigger_source := Some MANUAL_SOS, ae_idempotency_key := Some ''key-1'',
         logged_at := Some 1\<rparr>]"
  by (simp add: pending_store_def trigger_emergency_def truthy_def find_logged_key_def
      empty_store_def guard_active_def has_active_emergency_def get_active_emergency_def
      create_emergency_def Let_def append_audit_def tick_def blank_entry_def new_event_def
      or_else_def)

lemma resolved_store_active:
  "active resolved_store =
     [''patient-1'' \<mapsto>
        (new_event ''event-1'' 0 ''patient-1'' MANUAL_SOS None None None None None (Some ''key-1''))
          \<lparr>status := RESOLVED, resolved_at := Some 0, resolved_by := Some ''PATIENT''\<rparr>]"
  by (simp add: resolved_store_def resolve_emergency_def pending_store_active Let_def
      append_audit_def tick_def)

subsection \<open>Cancel, resolve and override\<close>

lemma cancel_emergency_any_status:
  assumes "active s pid = Some ev"
  shows "cancel_emergency s clock pid who =
          Inr (\<lparr>active = (active s)(pid \<mapsto> ev\<lparr>status := CANCELLED, resolved_at := Some (clock 0),
                                              resolved_by := Some who\<rparr>),
                audit_log = drop (Suc (length (audit_log s)) - 2000)
                  (audit_log s @ [(blank_entry ''EMERGENCY_CANCELLED'' (event_id ev) pid)
                     \<lparr>ae_cancelled_by := Some who, logged_at := Some (clock 1)\<rparr>])\<rparr>,
               ev\<lparr>status := CANCELLED, resolved_at := Some (clock 0), resolved_by := Some who\<rparr>)"
  using assms
  by (simp add: cancel_emergency_def Let_def append_audit_def blank_entry_def)

lemma resolve_emergency_any_status:
  assumes "active s pid = Some ev"
  shows "resolve_emergency s clock pid who =
          Inr (\<lparr>active = (active s)(pid \<mapsto> ev\<lparr>status := RESOLVED, resolved_at := Some (clock 0),
                                              resolved_by := Some who\<rparr>),
                audit_log = drop (Suc (length (audit_log s)) - 2000)
                  (audit_log s @ [(blank_entry ''EMERGENCY_RESOLVED'' (event_id ev) pid)
                     \<lparr>ae_resolved_by := Some who, logged_at := Some (clock 1)\<rparr>])\<rparr>,
               ev\<lparr>status := RESOLVED, resolved_at := Some (clock 0), resolved_by := Some who\<rparr>)"
  using assms
  by (simp add: resolve_emergency_def Let_def append_audit_def blank_entry_def)

lemma caretaker_override_any_status:
  assumes "active s pid = Some ev"
  shows "caretaker_override s clock pid who =
          Inr (\<lparr>active = (active s)(pid \<mapsto> ev\<lparr>status := CARETAKER_OVERRIDE,
                                              override_by := Some who,
                                              override_at := Some (clock 0)\<rparr>),
                audit_log = drop (Suc (length (audit_log s)) - 2000)
                  (audit_log s @ [(blank_entry ''CARETAKER_OVERRIDE'' (event_id ev) pid)
                     \<lparr>ae_caretaker_id := Some who, logged_at := Some (clock 1)\<rparr>])\<rparr>,
               ev\<lparr>status := CARETAKER_OVERRIDE, override_by := Some who,
                   override_at := Some (clock 0)\<rparr>)"
  using assms
  by (simp add: caretaker_override_def Let_def append_audit_def blank_entry_def)

text \<open>
  Claim C10: \<open>cancel_emergency\<close>, \<open>resolve_emergency\<close> and \<open>caretaker_override\<close> do not
  look at the status of the stored event. Called for a patient whose stored event is
  already \<open>RESOLVED\<close>, \<open>CANCELLED\<close> or \<open>CARETAKER_OVERRIDE\<close>, each succeeds, overwrites
  the status with its own terminal value, stamps the actor and the time again, stores the
  event and appends one more audit entry to the log (of which the last 2000 are kept).
\<close>

theorem terminal_states_not_protected:
  assumes "active s pid = Some ev"
    and "status ev \<in> {RESOLVED, CANCELLED, CARETAKER_OVERRIDE}"
  shows
    "(\<exists>s' ev' entry. cancel_emergency s clock pid who = Inr (s', ev')
        \<and> status ev' = CANCELLED \<and> resolved_by ev' = Some who
        \<and> resolved_at ev' = Some (clock 0) \<and> active s' pid = Some ev'
        \<and> audit_log s' = drop (Suc (length (audit_log s)) - 2000) (audit_log s @ [entry])
        \<and> event_type entry = ''EMERGENCY_CANCELLED'' \<and> ae_event_id entry = event_id ev
        \<and> ae_cancelled_by entry = Some who)
     \<and> (\<exists>s' ev' entry. resolve_emergency s clock pid who = Inr (s', ev')
        \<and> status ev' = RESOLVED \<and> resolved_by ev' = Some who
        \<and> resolved_at ev' = Some (clock 0) \<and> active s' pid = Some ev'
        \<and> audit_log s' = drop (Suc (length (audit_log s)) - 2000) (audit_log s @ [entry])
        \<and> event_type entry = ''EMERGENCY_RESOLVED'' \<and> ae_event_id entry = event_id ev
        \<and> ae_resolved_by entry = Some who)
     \<and> (\<exists>s' ev' entry. caretaker_override s clock pid who = Inr (s', ev')
        \<and> status ev' = CARETAKER_OVERRIDE \<and> override_by ev' = Some who
        \<and> override_at ev' = Some (clock 0) \<and> active s' pid = Some ev'
        \<and> audit_log s' = drop (Suc (length (audit_log s)) - 2000) (audit_log s @ [entry])
        \<and> event_type entry = ''CARETAKER_OVERRIDE'' \<and> ae_event_id entry = event_id ev
        \<and> ae_caretaker_id entry = Some who)"
proof (intro conjI)
  show "\<exists>s' ev' entry. cancel_emergency s clock pid who = Inr (s', ev')
        \<and> status ev' = CANCELLED \<and> resolved_by ev' = Some who
        \<and> resolved_at ev' = Some (clock 0) \<and> active s' pid = Some ev'
        \<and> audit_log s' = drop (Suc (length (audit_log s)) - 2000) (audit_log s @ [entry])
        \<and> event_type entry = ''EMERGENCY_CANCELLED'' \<and> ae_event_id entry = event_id ev
        \<and> ae_cancelled_by entry = Some who"
    unfolding cancel_emergency_any_status [OF assms(1)]
    by (intro exI conjI, rule refl, (simp add: blank_entry_def)+)
  show "\<exists>s' ev' entry. resolve_emergency s clock pid who = Inr (s', ev')
        \<and> status ev' = RESOLVED \<and> resolved_by ev' = Some who
        \<and> resolved_at ev' = Some (clock 0) \<and> active s' pid = Some ev'
        \<and> audit_log s' = drop (Suc (length (audit_log s)) - 2000) (audit_log s @ [entry])
        \<and> event_type entry = ''EMERGENCY_RESOLVED'' \<and> ae_event_id entry = event_id ev
        \<and> ae_resolved_by entry = Some who"
    unfolding resolve_emergency_any_status [OF assms(1)]
    by (intro exI conjI, rule refl, (simp add: blank_entry_def)+)
  show "\<exists>s' ev' entry. caretaker_override s clock pid who = Inr (s', ev')
        \<and> status ev' = CARETAKER_OVERRIDE \<and> override_by ev' = Some who
        \<and> override_at ev' = Some (clock 0) \<and> active s' pid = Some ev'
        \<and> audit_log s' = drop (Suc (length (audit_log s)) - 2000) (audit_log s @ [entry])
        \<and> event_type entry = ''CARETAKER_OVERRIDE'' \<and> ae_event_id entry = event_id ev
        \<and> ae_caretaker_id entry = Some who"
    unfolding caretaker_override_any_status [OF assms(1)]
    by (intro exI conjI, rule refl, (simp add: blank_entry_def)+)
qed

theorem terminal_states_not_protected_witness:
  "active resolved_store ''patient-1'' \<noteq> None
   \<and> status (the (active resolved_store ''patient-1'')) = RESOLVED
   \<and> (\<exists>s' ev'. cancel_emergency resolved_store tick ''patient-1'' ''CARETAKER'' = Inr (s', ev')
         \<and> status ev' = CANCELLED \<and> resolved_by ev' = Some ''CARETAKER''
         \<and> length (audit_log s') = Suc (length (audit_log resolved_store)))"
proof -
  let ?ev = "(new_event ''event-1'' 0 ''patient-1'' MANUAL_SOS None None None None None
                (Some ''key-1''))
              \<lparr>status := RESOLVED, resolved_at := Some 0, resolved_by := Some ''PATIENT''\<rparr>"
  have a: "active resolved_store ''patient-1'' = Some ?ev"
    by (simp add: resolved_store_active)
  have st: "status ?ev \<in> {RESOLVED, CANCELLED, CARETAKER_OVERRIDE}"
    by simp
  have len: "length (audit_log resolved_store) = 2"
    by (simp add: resolved_store_def resolve_emergency_def pending_store_active Let_def
        append_audit_def pending_store_audit)
  from terminal_states_not_protected [OF a st, of tick "''CARETAKER''"]
  obtain s' ev' entry where
    "cancel_emergency resolved_store tick ''patient-1'' ''CARETAKER'' = Inr (s', ev')"
    "status ev' = CANCELLED" "resolved_by ev' = Some ''CARETAKER''"
    "audit_log s' = drop (Suc (length (audit_log resolved_store)) - 2000)
                      (audit_log resolved_store @ [entry])"
    by blast
  with a len show ?thesis by auto
qed

subsection \<open>Escalation\<close>

lemma located_store_active:
  "active located_store =
     [''patient-2'' \<mapsto>
        new_event ''event-2'' 0 ''patient-2'' FALL_DETECTION None (Some bangalore)
          (Some ''+911234567890'') (Some ''Asha'') None None]"
  by (simp add: located_store_def trigger_emergency_def truthy_def
      empty_store_def guard_active_def has_active_emergency_def get_active_emergency_def
      create_emergency_def Let_def append_audit_def tick_def)

lemma escalate_not_pending:
  assumes "active s pid = Some ev" and "status ev \<noteq> PENDING_CONFIRMATION"
  shows "escalate_emergency s g clock pid loc = Inr (s, ev)"
  using assms by (simp add: escalate_emergency_def)

lemma notify_caretaker_usable:
  assumes "usable_location (location e)"
  shows "\<exists>b. notify_caretaker g e = Inr b"
  using assms
  by (auto simp: notify_caretaker_def usable_location_def dict_truthy_def subscript_def Let_def)

lemma notify_caretaker_reads:
  assumes "caretaker_phone e' = caretaker_phone e" and "location e' = location e"
  shows "notify_caretaker g e' = notify_caretaker g e"
  unfolding notify_caretaker_def assms by (rule refl)

lemma dial_ambulance_reads:
  assumes "caretaker_phone e' = caretaker_phone e"
  shows "dial_ambulance g e' = dial_ambulance g e"
  unfolding dial_ambulance_def assms by (rule refl)

lemma build_voice_agent_packet_usable:
  assumes "usable_location (location e)"
  shows "\<exists>p. build_voice_agent_packet e = Inr p"
  using assms
  by (auto simp: build_voice_agent_packet_def gps_coordinates_def usable_location_def
      dict_truthy_def subscript_def format_fixed_def)

lemma escalate_pending:
  assumes "active s pid = Some ev" and "status ev = PENDING_CONFIRMATION"
    and "usable_location loc" and "usable_location (location ev)"
  shows "\<exists>s' ev' a1 a2 a3 a4 b1.
           escalate_emergency s g clock pid loc = Inr (s', ev')
           \<and> status ev' = ESCALATED
           \<and> escalated_at ev' = Some (clock 0)
           \<and> active s' pid = Some ev'
           \<and> actions_taken ev' = actions_taken ev @ [a1, a2, a3, a4]
           \<and> map action [a1, a2, a3, a4] =
               [''CARETAKER_NOTIFIED'', ''DIAL_108'', ''GPS_SHARED'', ''VOICE_AGENT_DISPATCHED'']
           \<and> notify_caretaker g ev' = Inr b1
           \<and> map success [a1, a2, a3, a4] =
               [Some b1, Some (dial_ambulance g ev'), Some (share_gps ev'), None]"
proof -
  define e0 where "e0 = ev\<lparr>status := ESCALATED, escalated_at := Some (clock 0)\<rparr>"
  define e1 where "e1 = (if dict_truthy loc then e0\<lparr>location := loc\<rparr> else e0)"
  have u: "usable_location (location e1)"
    using assms(3,4) by (simp add: e1_def e0_def)
  from notify_caretaker_usable [OF u] obtain b1 where b1: "notify_caretaker g e1 = Inr b1"
    by blast
  define e2 where "e2 = add_action e1
      (CARETAKER_NOTIFIED [''sms'', ''push'', ''in_app''] b1 (clock 1))"
  define e3 where "e3 = add_action e2 (DIAL_108 ''108'' (dial_ambulance g e2) (clock 2))"
  define e4 where "e4 = add_action e3 (GPS_SHARED (location e3) (share_gps e3) (clock 3))"
  have loc4: "location e4 = location e1" "caretaker_phone e4 = caretaker_phone e1"
    by (simp_all add: e4_def e3_def e2_def add_action_def)
  with u have "usable_location (location e4)" by simp
  from build_voice_agent_packet_usable [OF this] obtain p where
    p: "build_voice_agent_packet e4 = Inr p" by blast
  define e5 where "e5 = add_action e4 (VOICE_AGENT_DISPATCHED p (clock 4))"
  define s2 where "s2 = append_audit (s\<lparr>active := (active s)(pid \<mapsto> e5)\<rparr>) (clock 5)
      ((blank_entry ''EMERGENCY_ESCALATED'' (event_id e5) pid)
         \<lparr>ae_actions := Some (map action (actions_taken e5))\<rparr>)"
  have run: "escalate_emergency s g clock pid loc = Inr (s2, e5)"
    using assms(1,2) b1 p
    unfolding s2_def e5_def e4_def e3_def e2_def e1_def e0_def
    by (simp add: escalate_emergency_def Let_def)
  have reads5: "location e5 = location e1" "caretaker_phone e5 = caretaker_phone e1"
    by (simp_all add: e5_def loc4 add_action_def)
  have "notify_caretaker g e5 = Inr b1"
    using notify_caretaker_reads [OF reads5(2) reads5(1)] b1 by simp
  moreover have "dial_ambulance g e2 = dial_ambulance g e5"
    by (rule dial_ambulance_reads) (simp add: reads5 e2_def add_action_def)
  moreover have "share_gps e3 = share_gps e5"
    by (simp add: share_gps_def reads5 e3_def e2_def add_action_def)
  moreover have "status e5 = ESCALATED" "escalated_at e5 = Some (clock 0)"
    by (simp_all add: e5_def e4_def e3_def e2_def e1_def e0_def add_action_def)
  moreover have "active s2 pid = Some e5"
    by (simp add: s2_def append_audit_def Let_def)
  moreover have "actions_taken e5 = actions_taken ev @
      [CARETAKER_NOTIFIED [''sms'', ''push'', ''in_app''] b1 (clock 1),
       DIAL_108 ''108'' (dial_ambulance g e2) (clock 2),
       GPS_SHARED (location e3) (share_gps e3) (clock 3),
       VOICE_AGENT_DISPATCHED p (clock 4)]"
    by (simp add: e5_def e4_def e3_def e2_def e1_def e0_def add_action_def)
  ultimately show ?thesis
    using run by (intro exI conjI) (assumption | simp)+
qed

text \<open>
  A location that is a dictionary without the key \<open>lat\<close> stops the escalation: with a
  caretaker phone on the event, \<open>_notify_caretaker\<close> raises \<open>KeyError\<close> while it builds
  its message, \<open>escalate_emergency\<close> has no handler, and nothing is saved.
\<close>

lemma escalate_mislabelled_location_raises:
  "escalate_emergency located_store quiet_gateway tick ''patient-2'' (Some mislabelled)
     = Inl (KeyError ''lat'')"
  by (simp add: escalate_emergency_def located_store_active new_event_def Let_def
      notify_caretaker_def truthy_def dict_truthy_def mislabelled_def subscript_def)

text \<open>
  Claim C3, as stated, fails at the fourth action: the record of
  \<open>VOICE_AGENT_DISPATCHED\<close> has the keys \<open>action\<close>, \<open>packet\<close> and \<open>timestamp\<close> and no
  \<open>success\<close>. Escalating the pending emergency of \<open>patient-1\<close> (no caretaker phone, no
  location) records three failed actions and a fourth record without an outcome.
\<close>

theorem voice_packet_has_no_success:
  "map_sum id (\<lambda>(s, ev). map success (actions_taken ev))
     (escalate_emergency pending_store quiet_gateway tick ''patient-1'' None)
   = Inr [Some False, Some False, Some False, None]"
  by (simp add: escalate_emergency_def pending_store_active new_event_def Let_def
      add_action_def notify_caretaker_def dial_ambulance_def share_gps_def truthy_def
      dict_truthy_def build_voice_agent_packet_def gps_coordinates_def)

text \<open>
  Claim C3, amended: for every stored event in status \<open>PENDING_CONFIRMATION\<close>, when the
  location passed in and the location stored on the event are each absent, empty, or a
  dictionary whose \<open>lat\<close> and \<open>lon\<close> are floats, \<open>escalate_emergency\<close> returns (it does
  not raise), sets the status to \<open>ESCALATED\<close> and \<open>escalated_at\<close>, stores the event and
  appends exactly four action records in the order caretaker notification, ambulance
  dispatch, GPS share, voice-agent packet; the first three record as their \<open>success\<close>
  boolean what \<open>_notify_caretaker\<close>, \<open>_dial_ambulance\<close> and \<open>_share_gps\<close> answer for
  the event, and the fourth records the packet and no outcome. This holds whatever the
  three outcomes are, so an action that reports failure neither undoes the escalation nor
  keeps the later actions from being performed and recorded. For a stored event in any
  other status the call returns the event and leaves the store unchanged.
\<close>

theorem escalate_records_four_actions:
  assumes "active s pid = Some ev"
  shows
    "(status ev = PENDING_CONFIRMATION \<and> usable_location loc \<and> usable_location (location ev)
        \<longrightarrow>
       (\<exists>s' ev' a1 a2 a3 a4 b1.
           escalate_emergency s g clock pid loc = Inr (s', ev')
           \<and> status ev' = ESCALATED
           \<and> escalated_at ev' = Some (clock 0)
           \<and> active s' pid = Some ev'
           \<and> actions_taken ev' = actions_taken ev @ [a1, a2, a3, a4]
           \<and> map action [a1, a2, a3, a4] =
               [''CARETAKER_NOTIFIED'', ''DIAL_108'', ''GPS_SHARED'', ''VOICE_AGENT_DISPATCHED'']
           \<and> notify_caretaker g ev' = Inr b1
           \<and> map success [a1, a2, a3, a4] =
               [Some b1, Some (dial_ambulance g ev'), Some (share_gps ev'), None]))
     \<and> (status ev \<noteq> PENDING_CONFIRMATION \<longrightarrow>
          escalate_emergency s g clock pid loc = Inr (s, ev))"
  using escalate_pending [OF assms, of loc g clock] escalate_not_pending [OF assms, of g clock loc]
  by blast

theorem escalate_records_four_actions_witness:
  "active located_store ''patient-2'' \<noteq> None
   \<and> status (the (active located_store ''patient-2'')) = PENDING_CONFIRMATION
   \<and> usable_location None
   \<and> usable_location (location (the (active located_store ''patient-2'')))
   \<and> (\<exists>s' ev'. escalate_emergency located_store quiet_gateway tick ''patient-2'' None
                  = Inr (s', ev')
         \<and> status ev' = ESCALATED
         \<and> map action (actions_taken ev') =
               [''CARETAKER_NOTIFIED'', ''DIAL_108'', ''GPS_SHARED'', ''VOICE_AGENT_DISPATCHED'']
         \<and> map success (actions_taken ev') = [Some True, Some True, Some True, None])
   \<and> active resolved_store ''patient-1'' \<noteq> None
   \<and> status (the (active resolved_store ''patient-1'')) \<noteq> PENDING_CONFIRMATION
   \<and> (\<exists>ev. escalate_emergency resolved_store quiet_gateway tick ''patient-1'' None
                  = Inr (resolved_store, ev))"
proof -
  let ?p = "new_event ''event-2'' 0 ''patient-2'' FALL_DETECTION None (Some bangalore)
              (Some ''+911234567890'') (Some ''Asha'') None None"
  let ?q = "new_event ''event-1'' 0 ''patient-1'' MANUAL_SOS None None None None None
              (Some ''key-1'')"
  let ?r = "?q\<lparr>status := RESOLVED, resolved_at := Some 0, resolved_by := Some ''PATIENT''\<rparr>"
  have p: "active located_store ''patient-2'' = Some ?p"
    by (simp add: located_store_active)
  have r: "active resolved_store ''patient-1'' = Some ?r"
    by (simp add: resolved_store_active)
  have sp: "status ?p = PENDING_CONFIRMATION" "actions_taken ?p = []"
      "location ?p = Some bangalore" "caretaker_phone ?p = Some ''+911234567890''"
    by (simp_all add: new_event_def)
  have un: "usable_location None"
    by (simp add: usable_location_def)
  have ub: "usable_location (location ?p)"
    unfolding usable_location_def
    by (rule disjI2, rule disjI2, rule exI [of _ bangalore], rule exI [of _ "12.97"],
        rule exI [of _ "77.59"])
      (simp add: new_event_def bangalore_def)
  have sr: "status ?r \<noteq> PENDING_CONFIRMATION"
    by simp
  from mp [OF conjunct1 [OF escalate_records_four_actions [OF p, of None quiet_gateway tick]]
      conjI [OF sp(1) conjI [OF un ub]]]
  obtain s' ev' a1 a2 a3 a4 b1 where e:
    "escalate_emergency located_store quiet_gateway tick ''patient-2'' None = Inr (s', ev')"
    "status ev' = ESCALATED" "active s' ''patient-2'' = Some ev'"
    "actions_taken ev' = actions_taken ?p @ [a1, a2, a3, a4]"
    "map action [a1, a2, a3, a4] =
       [''CARETAKER_NOTIFIED'', ''DIAL_108'', ''GPS_SHARED'', ''VOICE_AGENT_DISPATCHED'']"
    "notify_caretaker quiet_gateway ev' = Inr b1"
    "map success [a1, a2, a3, a4] =
       [Some b1, Some (dial_ambulance quiet_gateway ev'), Some (share_gps ev'), None]"
    by (elim exE conjE) (rule that; assumption)
  have same: "ev' = snd (projr (escalate_emergency located_store quiet_gateway tick
      ''patient-2'' None))"
    by (simp add: e(1))
  have reads: "location ev' = Some bangalore" "caretaker_phone ev' = Some ''+911234567890''"
    unfolding same
    by (simp_all add: escalate_emergency_def located_store_active new_event_def Let_def
        add_action_def notify_caretaker_def truthy_def dict_truthy_def bangalore_def
        subscript_def build_voice_agent_packet_def gps_coordinates_def format_fixed_def)
  have "b1 = True"
    using e(6) reads
    by (simp add: notify_caretaker_def Let_def truthy_def dict_truthy_def bangalore_def
        subscript_def get_twilio_client_def quiet_gateway_def)
  moreover have "dial_ambulance quiet_gateway ev' = True"
    using reads
    by (simp add: dial_ambulance_def Let_def truthy_def get_twilio_client_def quiet_gateway_def)
  moreover have "share_gps ev' = True"
    using reads by (simp add: share_gps_def dict_truthy_def bangalore_def)
  ultimately have success: "map success (actions_taken ev') = [Some True, Some True, Some True, None]"
    using e(4,7) sp(2) by simp
  have names: "map action (actions_taken ev') =
       [''CARETAKER_NOTIFIED'', ''DIAL_108'', ''GPS_SHARED'', ''VOICE_AGENT_DISPATCHED'']"
    using e(4,5) sp(2) by simp
  have first: "\<exists>s' ev'. escalate_emergency located_store quiet_gateway tick ''patient-2'' None
                  = Inr (s', ev')
         \<and> status ev' = ESCALATED
         \<and> map action (actions_taken ev') =
               [''CARETAKER_NOTIFIED'', ''DIAL_108'', ''GPS_SHARED'', ''VOICE_AGENT_DISPATCHED'']
         \<and> map success (actions_taken ev') = [Some True, Some True, Some True, None]"
    by (intro exI conjI) (rule e(1), rule e(2), rule names, rule success)
  have second: "escalate_emergency resolved_store quiet_gateway tick ''patient-1'' None
                  = Inr (resolved_store, ?r)"
    by (rule mp [OF conjunct2 [OF escalate_records_four_actions
          [OF r, of None quiet_gateway tick]] sr])
  from p r sp(1) sr un ub first second show ?thesis by auto
qed

subsection \<open>Idempotent replay\<close>

text \<open>
  The idempotency scan walks the log from its newest entry, so it answers with the newest
  entry that carries the key, and \<open>trigger_emergency\<close> returns that audit entry.
\<close>

lemma find_skips_prefix:
  assumes "\<forall>a \<in> set xs. \<not> P a"
  shows "find P (xs @ ys) = find P ys"
  using assms by (induction xs) simp_all


lemma find_logged_key_latest:
  assumes "ae_idempotency_key e = Some k"
    and "\<forall>a \<in> set newer. ae_idempotency_key a \<noteq> Some k"
  shows "find_logged_key (older @ e # newer) k = Some e"
proof -
  have "\<forall>a \<in> set (rev newer). \<not> ae_idempotency_key a = Some k"
    using assms(2) by simp
  from find_skips_prefix [OF this] assms(1) show ?thesis
    by (simp add: find_logged_key_def)
qed

lemma trigger_replay_returns_entry:
  assumes "k \<noteq> []" and "audit_log s = older @ e # newer"
    and "ae_idempotency_key e = Some k"
    and "\<forall>a \<in> set newer. ae_idempotency_key a \<noteq> Some k"
  shows "trigger_emergency s uuid4 clock pid source vitals loc phone name context (Some k)
          = (s, Duplicate e)"
  using assms(1) find_logged_key_latest [OF assms(3,4), of older]
  by (simp add: trigger_emergency_def truthy_def assms(2))

text \<open>
  Claim C2, on the code: the docstring of \<open>trigger_emergency\<close> promises that a second
  call with the same idempotency key "is a no-op and returns the existing emergency
  event", and the claim asks for the prior event, unchanged. The second call is a no-op
  on the store, but what it returns is the entry of the audit log. On the empty store the
  first call with \<open>key-1\<close> creates and stores the event \<open>event-1\<close> of \<open>patient-1\<close>, in
  status \<open>PENDING_CONFIRMATION\<close> with its deadline, snapshot and actions; the second call
  with \<open>key-1\<close> leaves the store as it is and returns the audit entry, whose keys are
  \<open>event_type\<close>, \<open>event_id\<close>, \<open>patient_id\<close>, \<open>trigger_source\<close>, \<open>idempotency_key\<close> and
  \<open>logged_at\<close>: the event id is the same, the event is not returned.
\<close>

theorem replay_returns_audit_entry:
  "trigger_emergency empty_store ''event-1'' tick ''patient-1'' MANUAL_SOS
       None None None None None (Some ''key-1'')
     = (pending_store,
        Triggered (new_event ''event-1'' 0 ''patient-1'' MANUAL_SOS None None None None None
                     (Some ''key-1'')))
   \<and> active pending_store ''patient-1''
     = Some (new_event ''event-1'' 0 ''patient-1'' MANUAL_SOS None None None None None
               (Some ''key-1''))
   \<and> trigger_emergency pending_store ''event-2'' tick ''patient-1'' MANUAL_SOS
       None None None None None (Some ''key-1'')
     = (pending_store,
        Duplicate \<lparr>event_type = ''EMERGENCY_TRIGGERED'', ae_event_id = ''event-1'',
                   ae_patient_id = ''patient-1'', ae_trigger_source = Some MANUAL_SOS,
                   ae_idempotency_key = Some ''key-1'', ae_actions = None,
                   ae_cancelled_by = None, ae_resolved_by = None, ae_caretaker_id = None,
                   logged_at = Some 1\<rparr>)"
proof (intro conjI)
  show "trigger_emergency empty_store ''event-1'' tick ''patient-1'' MANUAL_SOS
       None None None None None (Some ''key-1'')
     = (pending_store,
        Triggered (new_event ''event-1'' 0 ''patient-1'' MANUAL_SOS None None None None None
                     (Some ''key-1'')))"
    by (simp add: pending_store_def trigger_emergency_def truthy_def find_logged_key_def
        empty_store_def guard_active_def has_active_emergency_def get_active_emergency_def
        create_emergency_def Let_def tick_def)
  show "active pending_store ''patient-1''
     = Some (new_event ''event-1'' 0 ''patient-1'' MANUAL_SOS None None None None None
               (Some ''key-1''))"
    by (simp add: pending_store_active)
  show "trigger_emergency pending_store ''event-2'' tick ''patient-1'' MANUAL_SOS
       None None None None None (Some ''key-1'')
     = (pending_store,
        Duplicate \<lparr>event_type = ''EMERGENCY_TRIGGERED'', ae_event_id = ''event-1'',
                   ae_patient_id = ''patient-1'', ae_trigger_source = Some MANUAL_SOS,
                   ae_idempotency_key = Some ''key-1'', ae_actions = None,
                   ae_cancelled_by = None, ae_resolved_by = None, ae_caretaker_id = None,
                   logged_at = Some 1\<rparr>)"
    by (simp add: trigger_emergency_def truthy_def find_logged_key_def pending_store_audit
        blank_entry_def)
qed

subsection \<open>One open emergency per patient\<close>
















end
